theory Spec2Isabelle
  imports Main "HOL-Library.Word" "HOL-Library.Sublist" "HOL-Library.AList"
begin

section \<open>JavaScript values, errors and the platform\<close>

text \<open>
  Dynamically typed values (\<^verbatim>\<open>any\<close>, \<^verbatim>\<open>Record<string, any>\<close>, the result of
  \<^verbatim>\<open>JSON.parse\<close>) are JSON values. Numbers are integers: the times, counts and codes
  the program computes are integral, and fractional numbers are outside the model.
  Strings are lists of 8-bit characters. A property that is absent and a property
  holding \<^verbatim>\<open>undefined\<close> are both \<open>None\<close>.
\<close>

datatype json =
    JNull
  | JBool bool
  | JNum int
  | JStr string
  | JArr "json list"
  | JObj "(string \<times> json) list"

text \<open>Truthiness of a value, as \<^verbatim>\<open>if (v)\<close>, \<^verbatim>\<open>v && ...\<close> and \<^verbatim>\<open>v || d\<close> test it.\<close>

fun truthy :: "json \<Rightarrow> bool" where
  "truthy JNull = False"
| "truthy (JBool b) = b"
| "truthy (JNum n) = (n \<noteq> 0)"
| "truthy (JStr s) = (s \<noteq> [])"
| "truthy (JArr xs) = True"
| "truthy (JObj kvs) = True"

text \<open>\<^verbatim>\<open>v || d\<close> on a possibly undefined value.\<close>

definition or_else :: "json option \<Rightarrow> json \<Rightarrow> json" where
  "or_else v d = (case v of None \<Rightarrow> d | Some x \<Rightarrow> if truthy x then x else d)"

text \<open>
  Property read \<^verbatim>\<open>v.k\<close> on a value that is not null: an object yields the stored
  value, anything else has no property of the names the program reads.
\<close>

fun get_prop :: "json \<Rightarrow> string \<Rightarrow> json option" where
  "get_prop (JObj kvs) k = map_of kvs k"
| "get_prop v k = None"

text \<open>
  An \<^verbatim>\<open>Error\<close> object: the \<^verbatim>\<open>code\<close> that \<^verbatim>\<open>createError\<close> attaches (absent on a plain
  \<^verbatim>\<open>new Error(message)\<close>) and the message.
\<close>

datatype js_error = Error (err_code: "int option") (err_message: string)

text \<open>
  What the runtime provides and the repository only calls: Web Crypto, base64,
  JSON text, number coercion, dates. They are parameters of the model.
  \<^item> \<open>hmac_sha256 key data\<close>: the raw HMAC-SHA-256 digest, one character per byte;
  \<^item> \<open>sha256 data\<close>: the raw SHA-256 digest;
  \<^item> \<open>btoa\<close>, \<open>atob\<close>: base64 with padding; \<open>atob\<close> is \<open>None\<close> on text that is not
    base64, and then throws \<open>atob_error\<close> of that text;
  \<^item> \<open>json_parse\<close>: \<^verbatim>\<open>JSON.parse\<close>, \<open>None\<close> on text that is not JSON, and then it
    throws \<open>syntax_error\<close> of that text;
  \<^item> \<open>json_stringify\<close>: \<^verbatim>\<open>JSON.stringify\<close>;
  \<^item> \<open>to_number\<close>: the numeric coercion of a string, array or object (\<open>None\<close> is NaN);
  \<^item> \<open>to_iso_string\<close>: \<^verbatim>\<open>new Date(ms).toISOString()\<close>.
\<close>

record platform =
  hmac_sha256 :: "string \<Rightarrow> string \<Rightarrow> string"
  sha256 :: "string \<Rightarrow> string"
  btoa :: "string \<Rightarrow> string"
  atob :: "string \<Rightarrow> string option"
  atob_error :: "string \<Rightarrow> js_error"
  json_parse :: "string \<Rightarrow> json option"
  syntax_error :: "string \<Rightarrow> js_error"
  json_stringify :: "json \<Rightarrow> string"
  to_number :: "json \<Rightarrow> int option"
  to_iso_string :: "int \<Rightarrow> string"

definition apostrophe :: string where
  "apostrophe = [CHR 0x27]"

text \<open>\<^verbatim>\<open>s.includes(p)\<close> on strings: \<open>p\<close> occurs in \<open>s\<close> as a contiguous block.\<close>

fun includes_str :: "string \<Rightarrow> string \<Rightarrow> bool" where
  "includes_str [] p = (p = [])"
| "includes_str (c # cs) p = (prefix p (c # cs) \<or> includes_str cs p)"

text \<open>\<^verbatim>\<open>s.split(c)\<close> for a one-character separator: never an empty list.\<close>

fun split_on :: "char \<Rightarrow> string \<Rightarrow> string list" where
  "split_on c [] = [[]]"
| "split_on c (x # xs) =
     (if x = c then [] # split_on c xs
      else (case split_on c xs of
              [] \<Rightarrow> [[x]]
            | p # ps \<Rightarrow> (x # p) # ps))"

fun join_with :: "string \<Rightarrow> string list \<Rightarrow> string" where
  "join_with sep [] = []"
| "join_with sep [x] = x"
| "join_with sep (x # y # ys) = x @ sep @ join_with sep (y # ys)"

text \<open>\<^verbatim>\<open>s.replace(pat, rep)\<close> with a string pattern: the first occurrence only.\<close>

fun replace_first :: "string \<Rightarrow> string \<Rightarrow> string \<Rightarrow> string" where
  "replace_first pat rep [] = (if pat = [] then rep else [])"
| "replace_first pat rep (c # cs) =
     (if prefix pat (c # cs) then rep @ drop (length pat) (c # cs)
      else c # replace_first pat rep cs)"


section \<open>Token codec (oauth/jwt)\<close>

text \<open>
  \<^verbatim>\<open>base64urlEncode\<close>: \<^verbatim>\<open>btoa\<close>, then \<^verbatim>\<open>+\<close> to \<^verbatim>\<open>-\<close>, \<^verbatim>\<open>/\<close> to \<^verbatim>\<open>_\<close>, and every
  \<^verbatim>\<open>=\<close> removed. An \<^verbatim>\<open>ArrayBuffer\<close> argument is its bytes as characters.
\<close>

definition base64urlEncode :: "platform \<Rightarrow> string \<Rightarrow> string" where
  "base64urlEncode P d =
     filter (\<lambda>c. c \<noteq> CHR ''='')
       (map (\<lambda>c. if c = CHR ''/'' then CHR ''_'' else c)
         (map (\<lambda>c. if c = CHR ''+'' then CHR ''-'' else c) (btoa P d)))"

text \<open>The padding loop of \<^verbatim>\<open>base64urlDecode\<close>: \<^verbatim>\<open>while (base64.length % 4) base64 += '='\<close>.\<close>

function add_padding :: "string \<Rightarrow> string" where
  "add_padding s = (if length s mod 4 \<noteq> 0 then add_padding (s @ ''='') else s)"
  by pat_completeness auto
termination
proof (relation "measure (\<lambda>s. (4 - length s mod 4) mod 4)")
  show "wf (measure (\<lambda>s. (4 - length s mod 4) mod 4))" by simp
next
  fix s :: string
  assume "length s mod 4 \<noteq> 0"
  moreover have "length s mod 4 < 4" by simp
  ultimately show "(s @ ''='', s) \<in> measure (\<lambda>s. (4 - length s mod 4) mod 4)"
    by (simp add: mod_Suc) arith
qed

declare add_padding.simps [simp del]

definition base64urlDecode :: "platform \<Rightarrow> string \<Rightarrow> js_error + string" where
  "base64urlDecode P d =
     (let base64 = add_padding
            (map (\<lambda>c. if c = CHR ''_'' then CHR ''/'' else c)
              (map (\<lambda>c. if c = CHR ''-'' then CHR ''+'' else c) d))
      in case atob P base64 of
           None \<Rightarrow> Inl (atob_error P base64)
         | Some text \<Rightarrow> Inr text)"

text \<open>\<^verbatim>\<open>sign(data, secret)\<close>: HMAC-SHA-256 under the secret, base64url encoded.\<close>

definition sign :: "platform \<Rightarrow> string \<Rightarrow> string \<Rightarrow> string" where
  "sign P d secret = base64urlEncode P (hmac_sha256 P secret d)"

definition jwt_header :: json where
  "jwt_header = JObj [(''alg'', JStr ''HS256''), (''typ'', JStr ''JWT'')]"

definition createJWT :: "platform \<Rightarrow> json \<Rightarrow> string \<Rightarrow> string" where
  "createJWT P payload secret =
     (let encodedHeader = base64urlEncode P (json_stringify P jwt_header);
          encodedPayload = base64urlEncode P (json_stringify P payload);
          signature = sign P (encodedHeader @ ''.'' @ encodedPayload) secret
      in encodedHeader @ ''.'' @ encodedPayload @ ''.'' @ signature)"

text \<open>
  The numeric coercion of a value (\<open>None\<close> is NaN), and
  \<^verbatim>\<open>payload.exp < Math.floor(Date.now() / 1000)\<close>: the left side is coerced to a
  number, and a comparison with NaN is false.
\<close>

definition js_number :: "platform \<Rightarrow> json \<Rightarrow> int option" where
  "js_number P v =
     (case v of
        JNum n \<Rightarrow> Some n
      | JBool b \<Rightarrow> Some (if b then 1 else 0)
      | JNull \<Rightarrow> Some 0
      | _ \<Rightarrow> to_number P v)"

definition js_less_than :: "platform \<Rightarrow> json \<Rightarrow> int \<Rightarrow> bool" where
  "js_less_than P v m = (case js_number P v of None \<Rightarrow> False | Some n \<Rightarrow> n < m)"

text \<open>
  \<^verbatim>\<open>verifyJWT(token, secret)\<close> at clock reading \<open>now\<close> (milliseconds). The header part
  is used only as signed text; it is never decoded. Reading \<^verbatim>\<open>.exp\<close> of a payload
  that parsed to \<^verbatim>\<open>null\<close> is a TypeError.
\<close>

definition verifyJWT :: "platform \<Rightarrow> string \<Rightarrow> string \<Rightarrow> int \<Rightarrow> js_error + json" where
  "verifyJWT P token secret now =
     (case split_on CHR ''.'' token of
        [encodedHeader, encodedPayload, signature] \<Rightarrow>
          if signature \<noteq> sign P (encodedHeader @ ''.'' @ encodedPayload) secret
          then Inl (Error None ''Invalid JWT signature'')
          else (case base64urlDecode P encodedPayload of
                  Inl e \<Rightarrow> Inl e
                | Inr text \<Rightarrow>
                    (case json_parse P text of
                       None \<Rightarrow> Inl (syntax_error P text)
                     | Some payload \<Rightarrow>
                         if payload = JNull
                         then Inl (Error None ''Cannot read properties of null (reading 'exp')'')
                         else (case get_prop payload ''exp'' of
                                 None \<Rightarrow> Inr payload
                               | Some e \<Rightarrow>
                                   if truthy e \<and> js_less_than P e (now div 1000)
                                   then Inl (Error None ''JWT expired'')
                                   else Inr payload)))
      | _ \<Rightarrow> Inl (Error None ''Invalid JWT format''))"

definition verifyAccessToken :: "platform \<Rightarrow> string \<Rightarrow> string \<Rightarrow> int \<Rightarrow> js_error + json" where
  "verifyAccessToken P token secret now = verifyJWT P token secret now"

text \<open>
  The algorithm that a token's header declares: the \<^verbatim>\<open>alg\<close> property of the decoded
  first part. The verifier never computes it; it is defined here to state what a
  header claims.
\<close>

definition declared_alg :: "platform \<Rightarrow> string \<Rightarrow> json option" where
  "declared_alg P token =
     (case split_on CHR ''.'' token of
        [] \<Rightarrow> None
      | encodedHeader # _ \<Rightarrow>
          (case base64urlDecode P encodedHeader of
             Inl e \<Rightarrow> None
           | Inr text \<Rightarrow>
               (case json_parse P text of
                  None \<Rightarrow> None
                | Some header \<Rightarrow> get_prop header ''alg'')))"

text \<open>
  \<^verbatim>\<open>generateAccessToken\<close>: the claim set with \<^verbatim>\<open>iat\<close> the clock in seconds and
  \<^verbatim>\<open>exp\<close> one hour later.
\<close>

definition access_token_payload :: "string \<Rightarrow> string \<Rightarrow> string list \<Rightarrow> int \<Rightarrow> json" where
  "access_token_payload contactId email scopes now =
     JObj [(''sub'', JStr contactId),
           (''email'', JStr email),
           (''scopes'', JArr (map JStr scopes)),
           (''type'', JStr ''access_token''),
           (''iat'', JNum (now div 1000)),
           (''exp'', JNum (now div 1000 + 3600))]"

definition generateAccessToken ::
  "platform \<Rightarrow> string \<Rightarrow> string \<Rightarrow> string list \<Rightarrow> string \<Rightarrow> int \<Rightarrow> string" where
  "generateAccessToken P contactId email scopes secret now =
     createJWT P (access_token_payload contactId email scopes now) secret"

text \<open>
  Random bytes are an explicit input: \<open>rnd i\<close> is byte \<open>i\<close> of the array that
  \<^verbatim>\<open>crypto.getRandomValues\<close> fills.
\<close>

type_synonym random_source = "nat \<Rightarrow> 8 word"

definition generateRefreshToken :: "platform \<Rightarrow> random_source \<Rightarrow> string" where
  "generateRefreshToken P rnd = base64urlEncode P (map (\<lambda>i. char_of (unat (rnd i))) [0..<32])"

definition verifyPKCE :: "platform \<Rightarrow> string \<Rightarrow> string \<Rightarrow> bool" where
  "verifyPKCE P codeVerifier codeChallenge =
     (base64urlEncode P (sha256 P codeVerifier) = codeChallenge)"


section \<open>Stored data\<close>

text \<open>
  A text column or key-value entry that holds \<^verbatim>\<open>JSON.stringify\<close> of some value is
  modelled by the value it parses to; \<open>NotJson s\<close> is a stored text \<open>s\<close> on which
  \<^verbatim>\<open>JSON.parse\<close> throws. The empty text is \<open>NotJson []\<close>.
\<close>

datatype 'a json_text = Json 'a | NotJson string

datatype auth_status = Pending | Authorized | Denied

record AuthRequestStored =
  ar_id :: string
  ar_email :: string
  ar_customer_id :: "string option"
  ar_client_id :: string
  ar_client_name :: string
  ar_scopes :: "string list"
  ar_code_challenge :: string
  ar_status :: auth_status
  ar_code :: "string option"
  ar_created_at :: int
  ar_expires_at :: int

text \<open>The rows of the two tables of the schema; column \<^verbatim>\<open>used\<close> defaults to 0.\<close>

record auth_code_row =
  ac_code :: string
  ac_customer_email :: string
  ac_cordial_contact_id :: string
  ac_client_id :: string
  ac_scopes :: "string list json_text"
  ac_code_challenge :: string
  ac_expires_at :: int
  ac_used :: bool
  ac_created_at :: int

record refresh_token_row =
  rt_token :: string
  rt_customer_email :: string
  rt_cordial_contact_id :: string
  rt_client_id :: string
  rt_scopes :: "string list json_text"
  rt_expires_at :: int
  rt_created_at :: int
  rt_last_used :: "int option"

text \<open>
  The bindings of \<^verbatim>\<open>Env\<close> that hold state: the two tables of \<^verbatim>\<open>DB\<close> in row order,
  and the two key-value namespaces. \<^verbatim>\<open>expirationTtl\<close> on a \<^verbatim>\<open>put\<close> only schedules
  the store's own eviction, which is an event outside these functions: a namespace
  is the map of the entries it currently returns.
\<close>

record env_state =
  auth_codes :: "auth_code_row list"
  refresh_tokens :: "refresh_token_row list"
  AUTH_REQUESTS :: "string \<rightharpoonup> AuthRequestStored json_text"
  MAGIC_LINK_TOKENS :: "string \<rightharpoonup> string"

text \<open>
  What the database throws when an \<^verbatim>\<open>INSERT\<close> or \<^verbatim>\<open>UPDATE\<close> would give two rows the
  same \<^verbatim>\<open>PRIMARY KEY\<close>.
\<close>

definition unique_violation :: "string \<Rightarrow> js_error" where
  "unique_violation column = Error None (''D1_ERROR: UNIQUE constraint failed: '' @ column)"


section \<open>Customer directory (mock-data/customer)\<close>

record verification =
  v_exists :: bool
  v_customerId :: "string option"

text \<open>
  \<^verbatim>\<open>hashEmail\<close>: \<^verbatim>\<open>hash = ((hash << 5) - hash) + char; hash = hash & hash\<close> keeps a
  signed 32-bit integer; the result is its absolute value.
\<close>

definition hashEmail :: "string \<Rightarrow> int" where
  "hashEmail email =
     \<bar>sint (foldl (\<lambda>h c. (push_bit 5 h - h) + of_char c) (0 :: 32 word) email)\<bar>"

definition digit_char :: "nat \<Rightarrow> char" where
  "digit_char d = ''0123456789abcdefghijklmnopqrstuvwxyz'' ! d"

text \<open>\<^verbatim>\<open>n.toString(radix)\<close> for a natural number.\<close>

function to_radix :: "nat \<Rightarrow> nat \<Rightarrow> string" where
  "to_radix b n =
     (if n < b \<or> b < 2 then [digit_char n]
      else to_radix b (n div b) @ [digit_char (n mod b)])"
  by pat_completeness auto
termination
  by (relation "measure (\<lambda>(b, n). n)") auto

declare to_radix.simps [simp del]

text \<open>
  \<^verbatim>\<open>SeededRandom.next\<close> replaces the seed by \<^verbatim>\<open>(seed * 9301 + 49297) % 233280\<close> and
  returns \<^verbatim>\<open>seed / 233280\<close>; \<^verbatim>\<open>nextInt\<close> and \<^verbatim>\<open>pick\<close> call it once each. The seed
  after \<open>n\<close> draws:
\<close>

definition next_seed :: "int \<Rightarrow> int" where
  "next_seed seed = (seed * 9301 + 49297) mod 233280"

primrec seed_after :: "nat \<Rightarrow> int \<Rightarrow> int" where
  "seed_after 0 seed = seed"
| "seed_after (Suc n) seed = seed_after n (next_seed seed)"

text \<open>\<^verbatim>\<open>s.toLowerCase()\<close> on 8-bit characters: A to Z, and the accented capitals.\<close>

definition to_lower_char :: "char \<Rightarrow> char" where
  "to_lower_char c =
     (let n = (of_char c :: nat)
      in if (65 \<le> n \<and> n \<le> 90) \<or> (192 \<le> n \<and> n \<le> 222 \<and> n \<noteq> 215)
         then char_of (n + 32) else c)"

text \<open>
  The part of \<^verbatim>\<open>MockCustomer\<close> that does not depend on dates or on floating-point
  arithmetic: the id and the address. Names, creation date and loyalty data are
  left to the parameter that renders them (\<open>loyalty_of\<close> below).
\<close>

record customer =
  cust_customer_id :: string
  cust_email :: string

text \<open>
  \<^verbatim>\<open>generateCustomerFromEmail\<close>. Six draws are made (first name, last name, account
  age, tier, loyalty age, points) before \<^verbatim>\<open>if (rng.next() > 0.3)\<close> makes the
  seventh; the quotient exceeds 0.3 exactly when the seed exceeds 69984. In that
  branch the object literal assigned to \<^verbatim>\<open>customer.preferences\<close> reads
  \<^verbatim>\<open>customer.preferences!.favorite_brands\<close> while \<^verbatim>\<open>customer.preferences\<close> is still
  undefined, which throws a TypeError: a customer is returned only when the branch
  is not taken, and then without preferences.
\<close>

definition generateCustomerFromEmail :: "string \<Rightarrow> js_error + customer" where
  "generateCustomerFromEmail email =
     (let hash = hashEmail email
      in if 69984 < seed_after 7 hash
         then Inl (Error None ''Cannot read properties of undefined (reading 'favorite_brands')'')
         else Inr \<lparr>cust_customer_id = ''cust_'' @ to_radix 36 (nat hash),
                   cust_email = map to_lower_char email\<rparr>)"

definition getCustomerByEmail :: "string \<Rightarrow> js_error + customer option" where
  "getCustomerByEmail email =
     (if email = [] \<or> CHR ''@'' \<notin> set email then Inr None
      else (case generateCustomerFromEmail email of
              Inl e \<Rightarrow> Inl e
            | Inr c \<Rightarrow> Inr (Some c)))"

text \<open>
  Whether \<^verbatim>\<open>parseInt(s, 36)\<close> is NaN: after leading white space and one optional
  sign, the text does not start with a digit or a letter.
\<close>

definition is_js_space :: "char \<Rightarrow> bool" where
  "is_js_space c = ((of_char c :: nat) \<in> {9, 10, 11, 12, 13, 32, 160})"

definition is_digit36 :: "char \<Rightarrow> bool" where
  "is_digit36 c =
     (let n = (of_char c :: nat)
      in (48 \<le> n \<and> n \<le> 57) \<or> (65 \<le> n \<and> n \<le> 90) \<or> (97 \<le> n \<and> n \<le> 122))"

definition parseInt36_is_NaN :: "string \<Rightarrow> bool" where
  "parseInt36_is_NaN s =
     (case dropWhile is_js_space s of
        [] \<Rightarrow> True
      | c # rest \<Rightarrow>
          if c = CHR ''+'' \<or> c = CHR ''-''
          then (case rest of [] \<Rightarrow> True | d # _ \<Rightarrow> \<not> is_digit36 d)
          else \<not> is_digit36 c)"

text \<open>
  \<^verbatim>\<open>getCustomerById(customerId)\<close>, on whatever the token carries as \<^verbatim>\<open>sub\<close>: only a
  string has a \<^verbatim>\<open>replace\<close> method.
\<close>

definition getCustomerById :: "json option \<Rightarrow> js_error + customer option" where
  "getCustomerById customerId =
     (case customerId of
        Some (JStr cid) \<Rightarrow>
          (let hashStr = replace_first ''cust_'' [] cid
           in if parseInt36_is_NaN hashStr then Inr None
              else (case generateCustomerFromEmail (''customer_'' @ hashStr @ ''@example.com'') of
                      Inl e \<Rightarrow> Inl e
                    | Inr c \<Rightarrow> Inr (Some c)))
      | Some JNull \<Rightarrow> Inl (Error None ''Cannot read properties of null (reading 'replace')'')
      | None \<Rightarrow> Inl (Error None ''Cannot read properties of undefined (reading 'replace')'')
      | _ \<Rightarrow> Inl (Error None ''customerId.replace is not a function''))"

text \<open>
  \<^verbatim>\<open>verifyEmail\<close>: an address without an \<^verbatim>\<open>@\<close> does not exist; any other address
  exists with the id of the generated customer, unless generating the customer
  throws.
\<close>

definition verifyEmail :: "string \<Rightarrow> js_error + verification" where
  "verifyEmail email =
     (if email = [] \<or> CHR ''@'' \<notin> set email
      then Inr \<lparr>v_exists = False, v_customerId = None\<rparr>
      else (case getCustomerByEmail email of
              Inl e \<Rightarrow> Inl e
            | Inr c \<Rightarrow> Inr \<lparr>v_exists = True, v_customerId = map_option cust_customer_id c\<rparr>))"

text \<open>
  The directory as \<^verbatim>\<open>confirmAuthorization\<close> sees it: a call that returns a
  verification or throws. \<open>verifyEmail\<close> is the directory of this repository.
\<close>

type_synonym directory = "string \<Rightarrow> js_error + verification"


section \<open>Authorization orchestrator (oauth/authorize)\<close>

definition hex_digit :: "nat \<Rightarrow> char" where
  "hex_digit d = ''0123456789abcdef'' ! d"

text \<open>\<^verbatim>\<open>b.toString(16).padStart(2, '0')\<close> for a byte.\<close>

definition hex_byte :: "8 word \<Rightarrow> string" where
  "hex_byte b = [hex_digit (unat b div 16), hex_digit (unat b mod 16)]"

text \<open>\<^verbatim>\<open>generateId\<close>: sixteen random bytes in hexadecimal.\<close>

definition generateId :: "random_source \<Rightarrow> string" where
  "generateId rnd = concat (map (\<lambda>i. hex_byte (rnd i)) [0..<16])"

datatype poll_response =
    PollExpired
  | PollAuthorized string
  | PollDenied
  | PollPending int

text \<open>
  \<^verbatim>\<open>pollAuthorization(authRequestId, clientId, env)\<close> at clock reading \<open>now\<close>. An
  absent entry and an empty text are both falsy.
\<close>

definition pollAuthorization ::
  "string \<Rightarrow> string \<Rightarrow> int \<Rightarrow> env_state \<Rightarrow> js_error + poll_response" where
  "pollAuthorization authRequestId clientId now s =
     (case AUTH_REQUESTS s authRequestId of
        None \<Rightarrow> Inr PollExpired
      | Some (NotJson t) \<Rightarrow>
          if t = [] then Inr PollExpired
          else Inl (Error None ''Failed to parse auth request data'')
      | Some (Json authRequest) \<Rightarrow>
          if ar_client_id authRequest \<noteq> clientId then Inl (Error None ''Invalid client_id'')
          else if ar_expires_at authRequest < now then Inr PollExpired
          else
            (let otherwise =
                   (if ar_status authRequest = Denied then Inr PollDenied
                    else Inr (PollPending ((ar_expires_at authRequest - now) div 1000)))
             in case ar_code authRequest of
                  None \<Rightarrow> otherwise
                | Some code \<Rightarrow>
                    if ar_status authRequest = Authorized \<and> code \<noteq> []
                    then Inr (PollAuthorized code)
                    else otherwise))"

text \<open>
  \<^verbatim>\<open>confirmAuthorization(magicToken, env)\<close> with the directory, the clock and the
  random bytes of \<^verbatim>\<open>generateId\<close> as inputs. The result is the state left behind
  and either the error thrown or normal completion.
\<close>

definition deny_request :: "string \<Rightarrow> AuthRequestStored \<Rightarrow> env_state \<Rightarrow> env_state" where
  "deny_request authRequestId authRequest s =
     s\<lparr>AUTH_REQUESTS :=
         (AUTH_REQUESTS s)(authRequestId \<mapsto> Json (authRequest\<lparr>ar_status := Denied\<rparr>))\<rparr>"

definition confirmAuthorization ::
  "platform \<Rightarrow> directory \<Rightarrow> string \<Rightarrow> int \<Rightarrow> random_source \<Rightarrow> env_state
     \<Rightarrow> env_state \<times> (js_error + unit)" where
  "confirmAuthorization P verify magicToken now rnd s =
     (case MAGIC_LINK_TOKENS s magicToken of
        None \<Rightarrow> (s, Inl (Error None ''Invalid or expired magic link''))
      | Some authRequestId \<Rightarrow>
          if authRequestId = [] then (s, Inl (Error None ''Invalid or expired magic link''))
          else
            (case AUTH_REQUESTS s authRequestId of
               None \<Rightarrow> (s, Inl (Error None ''Authorization request expired''))
             | Some (NotJson t) \<Rightarrow>
                 if t = [] then (s, Inl (Error None ''Authorization request expired''))
                 else (s, Inl (syntax_error P t))
             | Some (Json authRequest) \<Rightarrow>
                 (case verify (ar_email authRequest) of
                    Inl e \<Rightarrow>
                      (deny_request authRequestId authRequest s,
                       Inl (Error None ''Customer not found in merchant system''))
                  | Inr verification \<Rightarrow>
                      (case v_customerId verification of
                         None \<Rightarrow>
                           (deny_request authRequestId authRequest s,
                            Inl (Error None ''Customer not found in merchant system''))
                       | Some customerId \<Rightarrow>
                           if \<not> v_exists verification \<or> customerId = []
                           then (deny_request authRequestId authRequest s,
                                 Inl (Error None ''Customer not found in merchant system''))
                           else
                             (let authCode = generateId rnd
                              in if authCode \<in> set (map ac_code (auth_codes s))
                                 then (s, Inl (unique_violation ''auth_codes.code''))
                                 else
                                   (s\<lparr>auth_codes := auth_codes s @
                                         [\<lparr>ac_code = authCode,
                                           ac_customer_email = ar_email authRequest,
                                           ac_cordial_contact_id = customerId,
                                           ac_client_id = ar_client_id authRequest,
                                           ac_scopes = Json (ar_scopes authRequest),
                                           ac_code_challenge = ar_code_challenge authRequest,
                                           ac_expires_at = now + 5 * 60 * 1000,
                                           ac_used = False,
                                           ac_created_at = now\<rparr>],
                                       AUTH_REQUESTS := (AUTH_REQUESTS s)(authRequestId \<mapsto>
                                         Json (authRequest\<lparr>ar_status := Authorized,
                                                            ar_code := Some authCode,
                                                            ar_customer_id := Some customerId\<rparr>)),
                                       MAGIC_LINK_TOKENS := (MAGIC_LINK_TOKENS s)(magicToken := None)\<rparr>,
                                    Inr ()))))))"


section \<open>Token endpoint (oauth/token)\<close>

record exchange_response =
  x_access_token :: string
  x_refresh_token :: string
  x_token_type :: string
  x_expires_in :: int
  x_scope :: string
  x_customer_id :: string
  x_email :: string

record refresh_response =
  r_access_token :: string
  r_refresh_token :: string
  r_token_type :: string
  r_expires_in :: int
  r_scope :: string

text \<open>\<^verbatim>\<open>UPDATE auth_codes SET used = 1 WHERE code = ?\<close>\<close>

definition mark_used :: "string \<Rightarrow> auth_code_row list \<Rightarrow> auth_code_row list" where
  "mark_used c rows = map (\<lambda>r. if ac_code r = c then r\<lparr>ac_used := True\<rparr> else r) rows"

text \<open>
  \<^verbatim>\<open>exchangeCodeForTokens(code, codeVerifier, clientId, env)\<close> under the signing
  secret of \<^verbatim>\<open>env\<close>, with the clock and the random bytes of the refresh token as
  inputs. The row is \<^verbatim>\<open>SELECT * FROM auth_codes WHERE code = ? AND used = 0\<close>. The
  code is marked used before the stored scopes are parsed and before the refresh
  token is inserted, so an error thrown after that point leaves the mark behind.
\<close>

definition exchangeCodeForTokens ::
  "platform \<Rightarrow> string \<Rightarrow> string \<Rightarrow> string \<Rightarrow> string \<Rightarrow> int \<Rightarrow> random_source \<Rightarrow> env_state
     \<Rightarrow> env_state \<times> (js_error + exchange_response)" where
  "exchangeCodeForTokens P secret c codeVerifier clientId now rnd s =
     (case find (\<lambda>r. ac_code r = c \<and> \<not> ac_used r) (auth_codes s) of
        None \<Rightarrow> (s, Inl (Error None ''Invalid or used authorization code''))
      | Some result \<Rightarrow>
          if ac_expires_at result < now
          then (s, Inl (Error None ''Authorization code expired''))
          else if ac_client_id result \<noteq> clientId
          then (s, Inl (Error None ''Invalid client_id''))
          else if \<not> verifyPKCE P codeVerifier (ac_code_challenge result)
          then (s, Inl (Error None ''Invalid code_verifier''))
          else
            (let s1 = s\<lparr>auth_codes := mark_used c (auth_codes s)\<rparr>
             in case ac_scopes result of
                  NotJson t \<Rightarrow> (s1, Inl (syntax_error P t))
                | Json scopes \<Rightarrow>
                    (let accessToken = generateAccessToken P (ac_cordial_contact_id result)
                                         (ac_customer_email result) scopes secret now;
                         refreshToken = generateRefreshToken P rnd
                     in if refreshToken \<in> set (map rt_token (refresh_tokens s1))
                        then (s1, Inl (unique_violation ''refresh_tokens.token''))
                        else
                          (s1\<lparr>refresh_tokens := refresh_tokens s1 @
                                [\<lparr>rt_token = refreshToken,
                                  rt_customer_email = ac_customer_email result,
                                  rt_cordial_contact_id = ac_cordial_contact_id result,
                                  rt_client_id = clientId,
                                  rt_scopes = ac_scopes result,
                                  rt_expires_at = now + 30 * 24 * 60 * 60 * 1000,
                                  rt_created_at = now,
                                  rt_last_used = None\<rparr>]\<rparr>,
                           Inr \<lparr>x_access_token = accessToken,
                                x_refresh_token = refreshToken,
                                x_token_type = ''Bearer'',
                                x_expires_in = 3600,
                                x_scope = join_with '' '' scopes,
                                x_customer_id = ac_cordial_contact_id result,
                                x_email = ac_customer_email result\<rparr>))))"

text \<open>
  A code is spent in a state when the table has it and no row of it is unused.
\<close>

definition spent :: "string \<Rightarrow> env_state \<Rightarrow> bool" where
  "spent c s =
     (c \<in> set (map ac_code (auth_codes s))
      \<and> find (\<lambda>r. ac_code r = c \<and> \<not> ac_used r) (auth_codes s) = None)"

text \<open>\<^verbatim>\<open>UPDATE refresh_tokens SET token = ?, last_used = ? WHERE token = ?\<close>\<close>

definition rotate :: "string \<Rightarrow> string \<Rightarrow> int \<Rightarrow> refresh_token_row list \<Rightarrow> refresh_token_row list" where
  "rotate old new now rows =
     map (\<lambda>r. if rt_token r = old then r\<lparr>rt_token := new, rt_last_used := Some now\<rparr> else r) rows"

text \<open>
  \<^verbatim>\<open>refreshAccessToken(refreshToken, clientId, env)\<close>. The \<^verbatim>\<open>UPDATE\<close> throws when
  the new value is already the key of another row.
\<close>

definition refreshAccessToken ::
  "platform \<Rightarrow> string \<Rightarrow> string \<Rightarrow> string \<Rightarrow> int \<Rightarrow> random_source \<Rightarrow> env_state
     \<Rightarrow> env_state \<times> (js_error + refresh_response)" where
  "refreshAccessToken P secret refreshToken clientId now rnd s =
     (case find (\<lambda>r. rt_token r = refreshToken) (refresh_tokens s) of
        None \<Rightarrow> (s, Inl (Error None ''Invalid refresh token''))
      | Some result \<Rightarrow>
          if rt_expires_at result < now
          then (s, Inl (Error None ''Refresh token expired''))
          else if rt_client_id result \<noteq> clientId
          then (s, Inl (Error None ''Invalid client_id''))
          else
            (case rt_scopes result of
               NotJson t \<Rightarrow> (s, Inl (syntax_error P t))
             | Json scopes \<Rightarrow>
                 (let newAccessToken = generateAccessToken P (rt_cordial_contact_id result)
                                         (rt_customer_email result) scopes secret now;
                      newRefreshToken = generateRefreshToken P rnd
                  in if list_ex (\<lambda>r. rt_token r = newRefreshToken \<and> rt_token r \<noteq> refreshToken)
                          (refresh_tokens s)
                     then (s, Inl (unique_violation ''refresh_tokens.token''))
                     else
                       (s\<lparr>refresh_tokens := rotate refreshToken newRefreshToken now (refresh_tokens s)\<rparr>,
                        Inr \<lparr>r_access_token = newAccessToken,
                             r_refresh_token = newRefreshToken,
                             r_token_type = ''Bearer'',
                             r_expires_in = 3600,
                             r_scope = join_with '' '' scopes\<rparr>))))"

text \<open>\<^verbatim>\<open>revokeToken\<close>: \<^verbatim>\<open>DELETE FROM refresh_tokens WHERE token = ?\<close>\<close>

definition revokeToken :: "string \<Rightarrow> env_state \<Rightarrow> env_state" where
  "revokeToken token s = s\<lparr>refresh_tokens := filter (\<lambda>r. rt_token r \<noteq> token) (refresh_tokens s)\<rparr>"


section \<open>The \<^verbatim>\<open>/v1/token\<close> route (index)\<close>

record token_request =
  tr_grant_type :: string
  tr_code :: string
  tr_code_verifier :: string
  tr_client_id :: string
  tr_refresh_token :: string

text \<open>
  The JSON bodies the route answers with: the tokens with status 200, or an error
  name and description with status 400.
\<close>

datatype token_reply =
    ExchangeOk exchange_response
  | RefreshOk refresh_response
  | TokenError (reply_error: string) (reply_description: string)

definition token_route ::
  "platform \<Rightarrow> string \<Rightarrow> token_request \<Rightarrow> int \<Rightarrow> random_source \<Rightarrow> env_state
     \<Rightarrow> env_state \<times> token_reply" where
  "token_route P secret body now rnd s =
     (if tr_grant_type body = ''authorization_code'' then
        (case exchangeCodeForTokens P secret (tr_code body) (tr_code_verifier body)
                (tr_client_id body) now rnd s of
           (s', Inr response) \<Rightarrow> (s', ExchangeOk response)
         | (s', Inl e) \<Rightarrow> (s', TokenError ''invalid_grant'' (err_message e)))
      else if tr_grant_type body = ''refresh_token'' then
        (case refreshAccessToken P secret (tr_refresh_token body) (tr_client_id body) now rnd s of
           (s', Inr response) \<Rightarrow> (s', RefreshOk response)
         | (s', Inl e) \<Rightarrow> (s', TokenError ''invalid_grant'' (err_message e)))
      else (s, TokenError ''unsupported_grant_type''
                 (''Grant type '' @ apostrophe @ tr_grant_type body @ apostrophe @ '' not supported'')))"


section \<open>Intent activity log (mock-data/customer) and its fold (rpc/handler)\<close>

record activity =
  act_action :: string
  act_timestamp :: string
  act_data :: json

record milestone =
  ms_timestamp :: string
  ms_event :: string
  ms_details :: json
  ms_source :: json

record scp_intent =
  i_intent_id :: json
  i_customer_id :: "json option"
  i_base_intent :: json
  i_mechanism :: json
  i_ai_assistant :: "json option"
  i_ai_session_id :: "json option"
  i_created_at :: string
  i_updated_at :: string
  i_expires_at :: "json option"
  i_status :: json
  i_context :: json
  i_visibility :: json
  i_shared_with :: "json option"
  i_milestones :: "milestone list"

text \<open>\<^verbatim>\<open>activity.data?.intent_id\<close>\<close>

definition intent_id_of :: "activity \<Rightarrow> json option" where
  "intent_id_of a = (case act_data a of JNull \<Rightarrow> None | d \<Rightarrow> get_prop d ''intent_id'')"

text \<open>
  A \<^verbatim>\<open>Map\<close> compares keys that are strings, numbers or booleans by value, and keys
  that are arrays or objects by identity. Every stored activity holds the id that
  was parsed from its own request (\<^verbatim>\<open>createIntent\<close>, \<^verbatim>\<open>updateIntent\<close>), so no two
  activities share an array or object: the identity of such an id is the position
  of its activity in the log.
\<close>

fun is_primitive :: "json \<Rightarrow> bool" where
  "is_primitive (JArr xs) = False"
| "is_primitive (JObj kvs) = False"
| "is_primitive v = True"

datatype intent_key = ByValue json | ByIdentity nat

definition intent_key_of :: "nat \<Rightarrow> json \<Rightarrow> intent_key" where
  "intent_key_of position v = (if is_primitive v then ByValue v else ByIdentity position)"

text \<open>
  The first loop of \<^verbatim>\<open>transformIntentsToSCP\<close>, from position \<open>i\<close> of the log on. The
  \<^verbatim>\<open>Map\<close> is a list of entries in insertion order, each with its key, the id and
  the value; \<^verbatim>\<open>set\<close> on a key that is present replaces the value where it stands.
\<close>

type_synonym intent_map = "(intent_key \<times> json \<times> activity \<times> activity list) list"

fun group_activities :: "intent_map \<Rightarrow> nat \<Rightarrow> activity list \<Rightarrow> intent_map" where
  "group_activities m i [] = m"
| "group_activities m i (a # rest) =
     (case intent_id_of a of
        None \<Rightarrow> group_activities m (Suc i) rest
      | Some intentId \<Rightarrow>
          if \<not> truthy intentId then group_activities m (Suc i) rest
          else if act_action a = ''scp_intent_created''
          then group_activities
                 (AList.update (intent_key_of i intentId) (intentId, a, []) m) (Suc i) rest
          else if intent_key_of i intentId \<in> fst ` set m
          then group_activities
                 (AList.map_entry (intent_key_of i intentId)
                    (\<lambda>(k, created, updates). (k, created, updates @ [a])) m) (Suc i) rest
          else group_activities m (Suc i) rest)"

text \<open>
  What the first loop does to the entry of one key, as a function of the activities
  that carry that key, in log order: a created activity starts the entry afresh, any
  other activity is appended to an entry that exists and dropped otherwise.
\<close>

fun entry_after ::
  "(activity \<times> activity list) option \<Rightarrow> activity list \<Rightarrow> (activity \<times> activity list) option" where
  "entry_after e [] = e"
| "entry_after e (a # rest) =
     (if act_action a = ''scp_intent_created'' then entry_after (Some (a, [])) rest
      else (case e of
              None \<Rightarrow> entry_after None rest
            | Some (created, updates) \<Rightarrow> entry_after (Some (created, updates @ [a])) rest))"

text \<open>An activity carries a status when its data has a truthy \<^verbatim>\<open>status\<close>.\<close>

definition carries_status :: "activity \<Rightarrow> bool" where
  "carries_status a =
     (case get_prop (act_data a) ''status'' of None \<Rightarrow> False | Some status \<Rightarrow> truthy status)"

text \<open>The loop that finds the latest status: it carries \<^verbatim>\<open>status\<close> and \<^verbatim>\<open>updatedAt\<close>.\<close>

fun latest_status :: "json \<times> string \<Rightarrow> activity list \<Rightarrow> json \<times> string" where
  "latest_status acc [] = acc"
| "latest_status acc (u # us) =
     (case get_prop (act_data u) ''status'' of
        None \<Rightarrow> latest_status acc us
      | Some status \<Rightarrow>
          if truthy status then latest_status (status, act_timestamp u) us
          else latest_status acc us)"

definition created_milestone :: "activity \<Rightarrow> milestone" where
  "created_milestone created =
     \<lparr>ms_timestamp = act_timestamp created,
      ms_event = ''created'',
      ms_details = act_data created,
      ms_source = or_else (get_prop (act_data created) ''source'') (JStr ''merchant'')\<rparr>"

definition update_milestone :: "activity \<Rightarrow> milestone" where
  "update_milestone u =
     \<lparr>ms_timestamp = act_timestamp u,
      ms_event = replace_first ''scp_intent_'' [] (act_action u),
      ms_details = act_data u,
      ms_source = or_else (get_prop (act_data u) ''source'') (JStr ''merchant'')\<rparr>"

text \<open>The body of the second loop: one intent object from one entry of the map.\<close>

definition to_intent ::
  "json option \<Rightarrow> intent_key \<times> json \<times> activity \<times> activity list \<Rightarrow> scp_intent" where
  "to_intent customerId entry =
     (case entry of (k, intentId, created, updates) \<Rightarrow>
        (let d = act_data created;
             latest = latest_status (JStr ''created'', act_timestamp created) updates
         in \<lparr>i_intent_id = intentId,
             i_customer_id = customerId,
             i_base_intent = or_else (get_prop d ''base_intent'') (JStr []),
             i_mechanism = or_else (get_prop d ''mechanism'') (JStr ''conversational_ai''),
             i_ai_assistant = get_prop d ''ai_assistant'',
             i_ai_session_id = get_prop d ''ai_session_id'',
             i_created_at = act_timestamp created,
             i_updated_at = snd latest,
             i_expires_at = get_prop d ''expires_at'',
             i_status = fst latest,
             i_context = or_else (get_prop d ''context'') (JObj []),
             i_visibility = or_else (get_prop d ''visibility'') (JStr ''merchant_only''),
             i_shared_with = get_prop d ''shared_with'',
             i_milestones = created_milestone created # map update_milestone updates\<rparr>))"

definition transformIntentsToSCP :: "json option \<Rightarrow> activity list \<Rightarrow> scp_intent list" where
  "transformIntentsToSCP customerId activities =
     map (to_intent customerId) (group_activities [] 0 activities)"

text \<open>
  The in-memory store \<^verbatim>\<open>MOCK_INTENTS\<close> and the console of the RPC module are the
  state the dispatcher's handlers act on. A console entry is the text and the
  customer id logged with it.
\<close>

record rpc_state =
  console :: "(string \<times> json option) list"
  MOCK_INTENTS :: "json option \<rightharpoonup> activity list"

definition log_line :: "string \<Rightarrow> json option \<Rightarrow> rpc_state \<Rightarrow> rpc_state" where
  "log_line text_logged customerId st = st\<lparr>console := console st @ [(text_logged, customerId)]\<rparr>"

definition getIntents :: "json option \<Rightarrow> rpc_state \<Rightarrow> activity list" where
  "getIntents customerId st = (case MOCK_INTENTS st customerId of None \<Rightarrow> [] | Some acts \<Rightarrow> acts)"

definition push_activity :: "json option \<Rightarrow> activity \<Rightarrow> rpc_state \<Rightarrow> rpc_state" where
  "push_activity customerId a st =
     st\<lparr>MOCK_INTENTS := (MOCK_INTENTS st)(customerId \<mapsto> getIntents customerId st @ [a])\<rparr>"

text \<open>A property of an object literal: left out when its value is \<^verbatim>\<open>undefined\<close>.\<close>

definition field :: "string \<Rightarrow> json option \<Rightarrow> (string \<times> json) list" where
  "field k v = (case v of None \<Rightarrow> [] | Some x \<Rightarrow> [(k, x)])"

text \<open>
  Object spread \<^verbatim>\<open>{...a, ...b}\<close>: a key of \<open>b\<close> that \<open>a\<close> has takes the new value where
  it stands, a new key goes to the end.
\<close>

definition spread :: "(string \<times> json) list \<Rightarrow> (string \<times> json) list \<Rightarrow> (string \<times> json) list" where
  "spread a b = foldl (\<lambda>acc kv. AList.update (fst kv) (snd kv) acc) a b"

text \<open>\<^verbatim>\<open>createIntent\<close> and \<^verbatim>\<open>updateIntent\<close> of the store.\<close>

definition storeIntent :: "platform \<Rightarrow> json option \<Rightarrow> (string \<times> json) list \<Rightarrow> int \<Rightarrow> rpc_state \<Rightarrow> rpc_state" where
  "storeIntent P customerId intentData now st =
     push_activity customerId
       \<lparr>act_action = ''scp_intent_created'',
        act_timestamp = to_iso_string P now,
        act_data = JObj (spread intentData
                     [(''status'', JStr ''created''), (''source'', JStr ''ai_assistant'')])\<rparr>
       st"

definition storeUpdate ::
  "platform \<Rightarrow> json option \<Rightarrow> json option \<Rightarrow> (string \<times> json) list \<Rightarrow> int \<Rightarrow> rpc_state \<Rightarrow> rpc_state" where
  "storeUpdate P customerId intentId update now st =
     push_activity customerId
       \<lparr>act_action = ''scp_intent_updated'',
        act_timestamp = to_iso_string P now,
        act_data = JObj (spread (spread (field ''intent_id'' intentId) update)
                     [(''source'', JStr ''ai_assistant'')])\<rparr>
       st"


section \<open>RPC dispatcher (rpc/handler)\<close>

text \<open>
  Two data providers are parameters of the model: the mock orders of an address
  with the formatting and pagination that \<^verbatim>\<open>getOrders\<close> applies to them, and the
  loyalty data of a generated customer as \<^verbatim>\<open>getLoyalty\<close> renders it (dates and
  floating-point arithmetic). Each gives the handler's result or the error thrown.
\<close>

record collaborators =
  orders_of :: "string \<Rightarrow> json \<Rightarrow> js_error + json"
  loyalty_of :: "customer \<Rightarrow> js_error + json"

datatype rpc_result = Plain json | IntentPage "scp_intent list" json

type_synonym handler_outcome = "rpc_state \<times> (js_error + rpc_result)"

definition plain :: "js_error + json \<Rightarrow> js_error + rpc_result" where
  "plain r = (case r of Inl e \<Rightarrow> Inl e | Inr v \<Rightarrow> Inr (Plain v))"

text \<open>\<^verbatim>\<open>getOrders\<close>: the customer first, then \<^verbatim>\<open>customer?.email || 'demo@example.com'\<close>.\<close>

definition getOrders :: "collaborators \<Rightarrow> json option \<Rightarrow> json \<Rightarrow> rpc_state \<Rightarrow> handler_outcome" where
  "getOrders C customerId params st =
     (log_line ''[RPC] Getting orders for customer:'' customerId st,
      case getCustomerById customerId of
        Inl e \<Rightarrow> Inl e
      | Inr customer \<Rightarrow>
          plain (orders_of C
                   (case customer of
                      None \<Rightarrow> ''demo@example.com''
                    | Some c \<Rightarrow> if cust_email c = [] then ''demo@example.com'' else cust_email c)
                   params))"

text \<open>\<^verbatim>\<open>getLoyalty\<close>: a generated customer always has loyalty data.\<close>

definition getLoyalty ::
  "platform \<Rightarrow> collaborators \<Rightarrow> json option \<Rightarrow> int \<Rightarrow> rpc_state \<Rightarrow> handler_outcome" where
  "getLoyalty P C customerId now st =
     (log_line ''[RPC] Getting loyalty for customer:'' customerId st,
      case getCustomerById customerId of
        Inl e \<Rightarrow> Inl e
      | Inr None \<Rightarrow>
          Inr (Plain (JObj [(''loyalty'',
            JObj ([(''program_name'', JStr ''Rewards Program'')]
                  @ field ''member_id'' customerId
                  @ [(''member_since'', JStr (takeWhile (\<lambda>c. c \<noteq> CHR ''T'') (to_iso_string P now))),
                     (''tier'', JStr ''Bronze''),
                     (''points'', JObj [(''current'', JNum 0), (''lifetime'', JNum 0),
                                        (''currency_value'', JNum 0)]),
                     (''benefits'', JArr [JStr ''Points on every purchase''])]))]))
      | Inr (Some c) \<Rightarrow> plain (loyalty_of C c))"

definition getOffers :: "platform \<Rightarrow> json option \<Rightarrow> json \<Rightarrow> int \<Rightarrow> rpc_state \<Rightarrow> handler_outcome" where
  "getOffers P customerId params now st =
     (log_line ''[RPC] Getting offers for customer:'' customerId st,
      Inr (Plain (JObj [(''offers'', JArr
        [JObj [(''offer_id'', JStr ''offer_001''),
               (''title'', JStr ''15% Off Your Next Purchase''),
               (''description'', JStr ''Use code SAVE15 at checkout''),
               (''discount_type'', JStr ''percentage''),
               (''discount_value'', JNum 15),
               (''code'', JStr ''SAVE15''),
               (''expires_at'', JStr (to_iso_string P (now + 30 * 24 * 60 * 60 * 1000))),
               (''minimum_purchase'', JNum 50),
               (''terms'', JStr ''Valid on regular priced items only'')],
         JObj [(''offer_id'', JStr ''offer_002''),
               (''title'', JStr ''Free Shipping''),
               (''description'', JStr ''Free shipping on orders over $75''),
               (''discount_type'', JStr ''shipping''),
               (''code'', JStr ''FREESHIP''),
               (''minimum_purchase'', JNum 75),
               (''terms'', JStr ''Continental US only'')]])])))"

text \<open>
  \<^verbatim>\<open>getPreferences\<close>: a customer that is returned has no preferences, so the answer
  is the default whenever the customer call does not throw.
\<close>

definition getPreferences :: "json option \<Rightarrow> rpc_state \<Rightarrow> handler_outcome" where
  "getPreferences customerId st =
     (log_line ''[RPC] Getting preferences for customer:'' customerId st,
      case getCustomerById customerId of
        Inl e \<Rightarrow> Inl e
      | Inr customer \<Rightarrow>
          Inr (Plain (JObj [(''preferences'',
            JObj [(''communication'',
                   JObj [(''email_marketing'', JBool False),
                         (''sms_marketing'', JBool False),
                         (''push_notifications'', JBool False)])])])))"

text \<open>
  \<^verbatim>\<open>generateIntentId\<close>: \<open>random_text\<close> is
  \<^verbatim>\<open>Math.random().toString(36).substring(2, 11)\<close>, an input.
\<close>

definition generateIntentId :: "int \<Rightarrow> string \<Rightarrow> string" where
  "generateIntentId now random_text = ''intent_'' @ to_radix 10 (nat now) @ ''_'' @ random_text"

definition createIntent ::
  "platform \<Rightarrow> json option \<Rightarrow> json \<Rightarrow> int \<Rightarrow> string \<Rightarrow> rpc_state \<Rightarrow> handler_outcome" where
  "createIntent P customerId params now random_text st =
     (let st1 = log_line ''[RPC] Creating intent for customer:'' customerId st;
          intentId = or_else (get_prop params ''intent_id'') (JStr (generateIntentId now random_text));
          st2 = storeIntent P customerId
                  ([(''intent_id'', intentId)]
                   @ field ''base_intent'' (get_prop params ''base_intent'')
                   @ [(''mechanism'', or_else (get_prop params ''mechanism'') (JStr ''conversational_ai''))]
                   @ field ''ai_assistant'' (get_prop params ''ai_assistant'')
                   @ field ''ai_session_id'' (get_prop params ''ai_session_id'')
                   @ [(''context'', or_else (get_prop params ''context'') (JObj [])),
                      (''visibility'', or_else (get_prop params ''visibility'') (JStr ''merchant_only''))]
                   @ field ''expires_at'' (get_prop params ''expires_at''))
                  now st1
      in (st2, Inr (Plain (JObj ([(''intent_id'', intentId)]
                                 @ field ''customer_id'' customerId
                                 @ [(''created_at'', JStr (to_iso_string P now)),
                                    (''status'', JStr ''created'')])))))"

text \<open>\<^verbatim>\<open>xs.slice(0, n)\<close> for an integer \<open>n\<close>: a negative end counts from the end.\<close>

definition slice0 :: "'a list \<Rightarrow> int \<Rightarrow> 'a list" where
  "slice0 xs n = (if n < 0 then take (nat (int (length xs) + n)) xs else take (nat n) xs)"

definition getIntentsMethod ::
  "platform \<Rightarrow> json option \<Rightarrow> json \<Rightarrow> rpc_state \<Rightarrow> handler_outcome" where
  "getIntentsMethod P customerId params st =
     (let st1 = log_line ''[RPC] Getting intents for customer:'' customerId st;
          intents = transformIntentsToSCP customerId (getIntents customerId st1);
          filtered =
            (case get_prop params ''status'' of
               None \<Rightarrow> intents
             | Some wanted \<Rightarrow>
                 if \<not> truthy wanted then intents
                 else (let statusArray = (case wanted of JArr xs \<Rightarrow> xs | v \<Rightarrow> [v])
                       in filter (\<lambda>i. is_primitive (i_status i) \<and> i_status i \<in> set statusArray)
                            intents));
          limit = or_else (get_prop params ''limit'') (JNum 10);
          count = (case js_number P limit of None \<Rightarrow> 0 | Some n \<Rightarrow> n)
      in (st1,
          Inr (IntentPage (slice0 filtered count)
                 (JObj [(''total'', JNum (int (length filtered))),
                        (''limit'', limit),
                        (''offset'', or_else (get_prop params ''offset'') (JNum 0)),
                        (''has_more'', JBool (js_less_than P limit (int (length filtered))))]))))"

definition updateIntent ::
  "platform \<Rightarrow> json option \<Rightarrow> json \<Rightarrow> int \<Rightarrow> rpc_state \<Rightarrow> handler_outcome" where
  "updateIntent P customerId params now st =
     (let st1 = log_line ''[RPC] Updating intent for customer:'' customerId st;
          st2 = storeUpdate P customerId (get_prop params ''intent_id'')
                  (field ''status'' (get_prop params ''status'')
                   @ field ''milestone'' (get_prop params ''add_milestone'')
                   @ field ''context'' (get_prop params ''context''))
                  now st1
      in (st2, Inr (Plain (JObj (field ''intent_id'' (get_prop params ''intent_id'')
                                 @ [(''updated_at'', JStr (to_iso_string P now)),
                                    (''status'', or_else (get_prop params ''status'') (JStr ''active''))])))))"

definition fulfillIntent ::
  "platform \<Rightarrow> json option \<Rightarrow> json \<Rightarrow> int \<Rightarrow> rpc_state \<Rightarrow> handler_outcome" where
  "fulfillIntent P customerId params now st =
     (let st1 = log_line ''[RPC] Fulfilling intent for customer:'' customerId st;
          st2 = storeUpdate P customerId (get_prop params ''intent_id'')
                  [(''status'', JStr ''fulfilled''),
                   (''context'',
                    JObj ([(''fulfillment_type'',
                            or_else (get_prop params ''fulfillment_type'') (JStr ''purchase''))]
                          @ field ''order_ids'' (get_prop params ''order_ids'')
                          @ field ''notes'' (get_prop params ''notes'')))]
                  now st1
      in (st2, Inr (Plain (JObj (field ''intent_id'' (get_prop params ''intent_id'')
                                 @ [(''status'', JStr ''fulfilled''),
                                    (''fulfilled_at'', JStr (to_iso_string P now))])))))"

text \<open>\<^verbatim>\<open>createError(code, message)\<close>\<close>

definition createError :: "int \<Rightarrow> string \<Rightarrow> js_error" where
  "createError c m = Error (Some c) m"

definition forbidden :: "string \<Rightarrow> js_error" where
  "forbidden required =
     createError (-32001) (''Forbidden: missing scope '' @ apostrophe @ required @ apostrophe)"

text \<open>
  \<^verbatim>\<open>checkScope(scopes, required)\<close>. \<^verbatim>\<open>scopes\<close> is whatever the token's payload
  holds under that name: on an array \<^verbatim>\<open>includes\<close> is membership, on a string it is
  the substring test, and any other value has no such method.
\<close>

definition checkScope :: "json option \<Rightarrow> string \<Rightarrow> js_error + unit" where
  "checkScope scopes required =
     (case scopes of
        Some (JArr xs) \<Rightarrow> if JStr required \<in> set xs then Inr () else Inl (forbidden required)
      | Some (JStr s) \<Rightarrow> if includes_str s required then Inr () else Inl (forbidden required)
      | Some JNull \<Rightarrow> Inl (Error None ''Cannot read properties of null (reading 'includes')'')
      | None \<Rightarrow> Inl (Error None ''Cannot read properties of undefined (reading 'includes')'')
      | _ \<Rightarrow> Inl (Error None ''scopes.includes is not a function''))"

text \<open>A handler guarded by its scope: the check first, the handler only when it passes.\<close>

definition guarded :: "json option \<Rightarrow> string \<Rightarrow> rpc_state \<Rightarrow> (rpc_state \<Rightarrow> handler_outcome) \<Rightarrow> handler_outcome" where
  "guarded scopes required st handler =
     (case checkScope scopes required of
        Inl e \<Rightarrow> (st, Inl e)
      | Inr _ \<Rightarrow> handler st)"

definition routeMethod ::
  "platform \<Rightarrow> collaborators \<Rightarrow> string \<Rightarrow> json \<Rightarrow> json option \<Rightarrow> json option \<Rightarrow> int \<Rightarrow> string
     \<Rightarrow> rpc_state \<Rightarrow> handler_outcome" where
  "routeMethod P C meth params customerId scopes now random_text st =
     (if meth = ''scp.get_orders''
      then guarded scopes ''orders'' st (getOrders C customerId params)
      else if meth = ''scp.get_loyalty''
      then guarded scopes ''loyalty'' st (getLoyalty P C customerId now)
      else if meth = ''scp.get_offers''
      then guarded scopes ''offers'' st (getOffers P customerId params now)
      else if meth = ''scp.get_preferences''
      then guarded scopes ''preferences'' st (getPreferences customerId)
      else if meth = ''scp.create_intent''
      then guarded scopes ''intent:create'' st (createIntent P customerId params now random_text)
      else if meth = ''scp.get_intents''
      then guarded scopes ''intent:read'' st (getIntentsMethod P customerId params)
      else if meth = ''scp.update_intent''
      then guarded scopes ''intent:write'' st (updateIntent P customerId params now)
      else if meth = ''scp.fulfill_intent''
      then guarded scopes ''intent:write'' st (fulfillIntent P customerId params now)
      else (st, Inl (createError (-32601) ''Method not found'')))"

text \<open>
  The scope each dispatched method requires, as the \<^verbatim>\<open>switch\<close> of \<^verbatim>\<open>routeMethod\<close>
  pairs them.
\<close>

definition method_scopes :: "(string \<times> string) list" where
  "method_scopes =
     [(''scp.get_orders'', ''orders''),
      (''scp.get_loyalty'', ''loyalty''),
      (''scp.get_offers'', ''offers''),
      (''scp.get_preferences'', ''preferences''),
      (''scp.create_intent'', ''intent:create''),
      (''scp.get_intents'', ''intent:read''),
      (''scp.update_intent'', ''intent:write''),
      (''scp.fulfill_intent'', ''intent:write'')]"

definition getErrorCode :: "js_error \<Rightarrow> int" where
  "getErrorCode e =
     (case err_code e of
        Some c \<Rightarrow> if c \<noteq> 0 then c else
          (if includes_str (err_message e) ''expired'' then -32000
           else if includes_str (err_message e) ''Invalid'' then -32000
           else -32603)
      | None \<Rightarrow>
          (if includes_str (err_message e) ''expired'' then -32000
           else if includes_str (err_message e) ''Invalid'' then -32000
           else -32603))"

record rpc_request =
  rq_id :: json
  rq_method :: string
  rq_params :: "json option"

datatype rpc_response =
    RpcResult json rpc_result
  | RpcError json int string

definition handleRPCRequest ::
  "platform \<Rightarrow> collaborators \<Rightarrow> string \<Rightarrow> rpc_request \<Rightarrow> string \<Rightarrow> int \<Rightarrow> string \<Rightarrow> rpc_state
     \<Rightarrow> rpc_state \<times> rpc_response" where
  "handleRPCRequest P C secret request accessToken now random_text st =
     (case verifyAccessToken P accessToken secret now of
        Inl e \<Rightarrow> (st, RpcError (rq_id request) (getErrorCode e) (err_message e))
      | Inr tokenPayload \<Rightarrow>
          (case routeMethod P C (rq_method request) (or_else (rq_params request) (JObj []))
                  (get_prop tokenPayload ''sub'') (get_prop tokenPayload ''scopes'')
                  now random_text st of
             (st', Inl e) \<Rightarrow> (st', RpcError (rq_id request) (getErrorCode e) (err_message e))
           | (st', Inr result) \<Rightarrow> (st', RpcResult (rq_id request) result)))"


section \<open>A concrete platform excerpt and concrete data for the examples\<close>

text \<open>
  The examples below run the model on concrete inputs. Their platform is a finite
  excerpt of the real one: every entry of the tables is the value the real function
  returns on that argument (HMAC-SHA-256 and SHA-256 digests, base64 texts, JSON
  texts), computed with reference implementations. Off the tables the functions
  return the empty text or fail; no example leaves the tables.
\<close>

definition demo_header_json :: "json" where
  \<open>demo_header_json =
    JObj [(''alg'', JStr ''HS256''), (''typ'', JStr ''JWT'')]\<close>

definition demo_header_text :: "string" where
  \<open>demo_header_text =
    ''{"alg":"HS256","typ":"JWT"}''\<close>

definition demo_header_b64 :: "string" where
  \<open>demo_header_b64 =
    ''eyJhbGciOiJIUzI1NiIsInR5cCI6IkpXVCJ9''\<close>

definition demo_header_part :: "string" where
  \<open>demo_header_part =
    ''eyJhbGciOiJIUzI1NiIsInR5cCI6IkpXVCJ9''\<close>

definition demo_header_none_json :: "json" where
  \<open>demo_header_none_json =
    JObj [(''alg'', JStr ''none''), (''typ'', JStr ''JWT'')]\<close>

definition demo_header_none_text :: "string" where
  \<open>demo_header_none_text =
    ''{"alg":"none","typ":"JWT"}''\<close>

definition demo_header_none_b64 :: "string" where
  \<open>demo_header_none_b64 =
    ''eyJhbGciOiJub25lIiwidHlwIjoiSldUIn0=''\<close>

definition demo_header_none_part :: "string" where
  \<open>demo_header_none_part =
    ''eyJhbGciOiJub25lIiwidHlwIjoiSldUIn0''\<close>

definition demo_claims_json :: "json" where
  \<open>demo_claims_json =
    JObj [(''sub'', JStr ''cust_b1p082''), (''email'', JStr ''a@example.com''), (''scopes'', JArr [JStr ''orders'']), (''type'', JStr ''access_token''), (''iat'', JNum 1000), (''exp'', JNum 4600)]\<close>

definition demo_claims_text :: "string" where
  \<open>demo_claims_text =
    ''{"sub":"cust_b1p082","email":"a@example.com","scopes":["orders"],"type":"access_token","iat":1000,"exp":4600}''\<close>

definition demo_claims_b64 :: "string" where
  \<open>demo_claims_b64 =
    ''eyJzdWIiOiJjdXN0X2IxcDA4MiIsImVtYWlsIjoiYUBleGFtcGxlLmNvbSIsInNjb3BlcyI6WyJvcmRl'' @
     ''cnMiXSwidHlwZSI6ImFjY2Vzc190b2tlbiIsImlhdCI6MTAwMCwiZXhwIjo0NjAwfQ==''\<close>

definition demo_claims_part :: "string" where
  \<open>demo_claims_part =
    ''eyJzdWIiOiJjdXN0X2IxcDA4MiIsImVtYWlsIjoiYUBleGFtcGxlLmNvbSIsInNjb3BlcyI6WyJvcmRl'' @
     ''cnMiXSwidHlwZSI6ImFjY2Vzc190b2tlbiIsImlhdCI6MTAwMCwiZXhwIjo0NjAwfQ''\<close>

definition demo_claims_no_exp_json :: "json" where
  \<open>demo_claims_no_exp_json =
    JObj [(''sub'', JStr ''cust_b1p082''), (''email'', JStr ''a@example.com''), (''scopes'', JArr [JStr ''orders'']), (''type'', JStr ''access_token''), (''iat'', JNum 1000)]\<close>

definition demo_claims_no_exp_text :: "string" where
  \<open>demo_claims_no_exp_text =
    ''{"sub":"cust_b1p082","email":"a@example.com","scopes":["orders"],"type":"access_token","iat":1000}''\<close>

definition demo_claims_no_exp_b64 :: "string" where
  \<open>demo_claims_no_exp_b64 =
    ''eyJzdWIiOiJjdXN0X2IxcDA4MiIsImVtYWlsIjoiYUBleGFtcGxlLmNvbSIsInNjb3BlcyI6WyJvcmRl'' @
     ''cnMiXSwidHlwZSI6ImFjY2Vzc190b2tlbiIsImlhdCI6MTAwMH0=''\<close>

definition demo_claims_no_exp_part :: "string" where
  \<open>demo_claims_no_exp_part =
    ''eyJzdWIiOiJjdXN0X2IxcDA4MiIsImVtYWlsIjoiYUBleGFtcGxlLmNvbSIsInNjb3BlcyI6WyJvcmRl'' @
     ''cnMiXSwidHlwZSI6ImFjY2Vzc190b2tlbiIsImlhdCI6MTAwMH0''\<close>

definition demo_claims_refreshed_json :: "json" where
  \<open>demo_claims_refreshed_json =
    JObj [(''sub'', JStr ''cust_b1p082''), (''email'', JStr ''a@example.com''), (''scopes'', JArr [JStr ''orders'']), (''type'', JStr ''access_token''), (''iat'', JNum 2000), (''exp'', JNum 5600)]\<close>

definition demo_claims_refreshed_text :: "string" where
  \<open>demo_claims_refreshed_text =
    ''{"sub":"cust_b1p082","email":"a@example.com","scopes":["orders"],"type":"access_token","iat":2000,"exp":5600}''\<close>

definition demo_claims_refreshed_b64 :: "string" where
  \<open>demo_claims_refreshed_b64 =
    ''eyJzdWIiOiJjdXN0X2IxcDA4MiIsImVtYWlsIjoiYUBleGFtcGxlLmNvbSIsInNjb3BlcyI6WyJvcmRl'' @
     ''cnMiXSwidHlwZSI6ImFjY2Vzc190b2tlbiIsImlhdCI6MjAwMCwiZXhwIjo1NjAwfQ==''\<close>

definition demo_claims_refreshed_part :: "string" where
  \<open>demo_claims_refreshed_part =
    ''eyJzdWIiOiJjdXN0X2IxcDA4MiIsImVtYWlsIjoiYUBleGFtcGxlLmNvbSIsInNjb3BlcyI6WyJvcmRl'' @
     ''cnMiXSwidHlwZSI6ImFjY2Vzc190b2tlbiIsImlhdCI6MjAwMCwiZXhwIjo1NjAwfQ''\<close>

definition demo_verifier :: "string" where
  \<open>demo_verifier =
    ''verifier-123''\<close>

definition demo_verifier_digest :: "string" where
  \<open>demo_verifier_digest =
    [CHR 0x0E, CHR 0xCD, CHR 0xCD, CHR 0xA5, CHR 0xA4, CHR ''D'', CHR 0xBB, CHR 0xD2,
     CHR ''6'', CHR 0x11, CHR 0x8A, CHR 0xBA, CHR 0x97, CHR ''I'', CHR ''w'', CHR ''f'',
     CHR ''A'', CHR ''r'', CHR 0xBF, CHR 0xF1, CHR 0xAD, CHR 0xE4, CHR 0xEE, CHR 0x04,
     CHR 0xA4, CHR 0x60, CHR 0xFA, CHR ''q'', CHR 0x99, CHR ''X'', CHR 0xD0, CHR 0xA8]\<close>

definition demo_challenge :: "string" where
  \<open>demo_challenge =
    ''Ds3NpaREu9I2EYq6l0l3ZkFyv_Gt5O4EpGD6cZlY0Kg''\<close>

definition demo_token_signed :: "string" where
  \<open>demo_token_signed =
    demo_header_part @ ''.'' @ demo_claims_part\<close>

definition demo_token_digest :: "string" where
  \<open>demo_token_digest =
    [CHR 0x86, CHR 0x9D, CHR '','', CHR ''{'', CHR 0xCF, CHR 0xF2, CHR 0xF0, CHR 0xE2,
     CHR ''b'', CHR ''('', CHR ''x'', CHR ''J'', CHR ''~'', CHR 0x16, CHR 0x16, CHR ''o'',
     CHR 0xA6, CHR 0xC6, CHR ''_'', CHR ''c'', CHR 0x19, CHR 0x96, CHR 0x97, CHR 0xA8,
     CHR 0xCB, CHR ''k'', CHR 0x15, CHR ''8'', CHR 0xCC, CHR 0x93, CHR ''!'', CHR 0x80]\<close>

definition demo_token_signature_b64 :: "string" where
  \<open>demo_token_signature_b64 =
    ''hp0se8/y8OJiKHhKfhYWb6bGX2MZlpeoy2sVOMyTIYA=''\<close>

definition demo_token_signature :: "string" where
  \<open>demo_token_signature =
    ''hp0se8_y8OJiKHhKfhYWb6bGX2MZlpeoy2sVOMyTIYA''\<close>

definition demo_token :: "string" where
  \<open>demo_token =
    demo_token_signed @ ''.'' @ demo_token_signature\<close>

definition demo_token_none_signed :: "string" where
  \<open>demo_token_none_signed =
    demo_header_none_part @ ''.'' @ demo_claims_part\<close>

definition demo_token_none_digest :: "string" where
  \<open>demo_token_none_digest =
    [CHR ''V'', CHR 0xFD, CHR 0xF5, CHR 0x1D, CHR ''_'', CHR 0x99, CHR ''I'', CHR ''h'',
     CHR 0x22, CHR ''M'', CHR 0xEA, CHR 0xFE, CHR 0x0F, CHR 0xCC, CHR 0xFF, CHR 0xD0,
     CHR ''M'', CHR 0x06, CHR 0xF3, CHR ''r'', CHR ''t'', CHR 0xCC, CHR 0xAF, CHR '' '',
     CHR 0xE9, CHR 0xA0, CHR 0xEF, CHR ''R'', CHR 0xCB, CHR ''O'', CHR 0xD2, CHR ''g'']\<close>

definition demo_token_none_signature_b64 :: "string" where
  \<open>demo_token_none_signature_b64 =
    ''Vv31HV+ZSWgiTer+D8z/0E0G83J0zK8g6aDvUstP0mc=''\<close>

definition demo_token_none_signature :: "string" where
  \<open>demo_token_none_signature =
    ''Vv31HV-ZSWgiTer-D8z_0E0G83J0zK8g6aDvUstP0mc''\<close>

definition demo_token_none :: "string" where
  \<open>demo_token_none =
    demo_token_none_signed @ ''.'' @ demo_token_none_signature\<close>

definition demo_token_no_exp_signed :: "string" where
  \<open>demo_token_no_exp_signed =
    demo_header_part @ ''.'' @ demo_claims_no_exp_part\<close>

definition demo_token_no_exp_digest :: "string" where
  \<open>demo_token_no_exp_digest =
    [CHR 0xB8, CHR ''R'', CHR ''n'', CHR ''#'', CHR ''!'', CHR 0x11, CHR ''R'', CHR ''X'',
     CHR 0xA0, CHR 0xDC, CHR 0x1D, CHR 0xC3, CHR 0xB5, CHR ''*'', CHR 0xC6, CHR ''7'',
     CHR 0x84, CHR 0xBA, CHR 0xBE, CHR 0xEB, CHR 0xAD, CHR 0x80, CHR ''S'', CHR 0xBF,
     CHR 0x96, CHR 0xC3, CHR 0xEF, CHR 0xB6, CHR ''T'', CHR 0x9B, CHR 0x00, CHR 0xB5]\<close>

definition demo_token_no_exp_signature_b64 :: "string" where
  \<open>demo_token_no_exp_signature_b64 =
    ''uFJuIyERUlig3B3DtSrGN4S6vuutgFO/lsPvtlSbALU=''\<close>

definition demo_token_no_exp_signature :: "string" where
  \<open>demo_token_no_exp_signature =
    ''uFJuIyERUlig3B3DtSrGN4S6vuutgFO_lsPvtlSbALU''\<close>

definition demo_token_no_exp :: "string" where
  \<open>demo_token_no_exp =
    demo_token_no_exp_signed @ ''.'' @ demo_token_no_exp_signature\<close>

definition demo_token_refreshed_signed :: "string" where
  \<open>demo_token_refreshed_signed =
    demo_header_part @ ''.'' @ demo_claims_refreshed_part\<close>

definition demo_token_refreshed_digest :: "string" where
  \<open>demo_token_refreshed_digest =
    [CHR 0xBE, CHR 0xBC, CHR 0xB3, CHR 0xB3, CHR ''P'', CHR 0xAF, CHR ''A'', CHR 0xEB,
     CHR 0xCA, CHR ''B'', CHR 0xDB, CHR 0xAE, CHR 0x27, CHR 0xD2, CHR 0xDF, CHR 0x06,
     CHR ''w'', CHR ''k'', CHR ''$'', CHR ''K'', CHR ''9'', CHR ''U'', CHR ''E'', CHR 0xF4,
     CHR ''T'', CHR 0xAD, CHR 0xCE, CHR 0xDD, CHR 0x81, CHR ''>'', CHR ''4'', CHR 0x11]\<close>

definition demo_token_refreshed_signature_b64 :: "string" where
  \<open>demo_token_refreshed_signature_b64 =
    ''vryzs1CvQevKQtuuJ9LfBndrJEs5VUX0VK3O3YE+NBE=''\<close>

definition demo_token_refreshed_signature :: "string" where
  \<open>demo_token_refreshed_signature =
    ''vryzs1CvQevKQtuuJ9LfBndrJEs5VUX0VK3O3YE-NBE''\<close>

definition demo_token_refreshed :: "string" where
  \<open>demo_token_refreshed =
    demo_token_refreshed_signed @ ''.'' @ demo_token_refreshed_signature\<close>

definition demo_challenge_b64 :: "string" where
  \<open>demo_challenge_b64 =
    ''Ds3NpaREu9I2EYq6l0l3ZkFyv/Gt5O4EpGD6cZlY0Kg=''\<close>

definition demo_bytes0 :: "string" where
  \<open>demo_bytes0 =
    replicate 32 (CHR 0x00)\<close>

definition demo_bytes1 :: "string" where
  \<open>demo_bytes1 =
    replicate 32 (CHR 0x01)\<close>

definition demo_bytes0_b64 :: "string" where
  \<open>demo_bytes0_b64 =
    ''AAAAAAAAAAAAAAAAAAAAAAAAAAAAAAAAAAAAAAAAAAA=''\<close>

definition demo_bytes1_b64 :: "string" where
  \<open>demo_bytes1_b64 =
    ''AQEBAQEBAQEBAQEBAQEBAQEBAQEBAQEBAQEBAQEBAQE=''\<close>

definition demo_secret :: "string" where
  \<open>demo_secret =
    ''test-secret''\<close>

definition demo_btoa_table :: "(string \<times> string) list" where
  \<open>demo_btoa_table =
    [(demo_header_text, demo_header_b64),
     (demo_header_none_text, demo_header_none_b64),
     (demo_claims_text, demo_claims_b64),
     (demo_claims_no_exp_text, demo_claims_no_exp_b64),
     (demo_claims_refreshed_text, demo_claims_refreshed_b64),
     (demo_token_digest, demo_token_signature_b64),
     (demo_token_none_digest, demo_token_none_signature_b64),
     (demo_token_no_exp_digest, demo_token_no_exp_signature_b64),
     (demo_token_refreshed_digest, demo_token_refreshed_signature_b64),
     (demo_verifier_digest, demo_challenge_b64),
     (demo_bytes0, demo_bytes0_b64),
     (demo_bytes1, demo_bytes1_b64)]\<close>

definition demo_hmac_table :: "((string \<times> string) \<times> string) list" where
  \<open>demo_hmac_table =
    [((demo_secret, demo_token_signed), demo_token_digest),
     ((demo_secret, demo_token_none_signed), demo_token_none_digest),
     ((demo_secret, demo_token_no_exp_signed), demo_token_no_exp_digest),
     ((demo_secret, demo_token_refreshed_signed), demo_token_refreshed_digest)]\<close>

definition demo_json_table :: "(string \<times> json) list" where
  \<open>demo_json_table =
    [(demo_header_text, demo_header_json),
     (demo_header_none_text, demo_header_none_json),
     (demo_claims_text, demo_claims_json),
     (demo_claims_no_exp_text, demo_claims_no_exp_json),
     (demo_claims_refreshed_text, demo_claims_refreshed_json)]\<close>

definition lookup_or :: "'b \<Rightarrow> ('a \<times> 'b) list \<Rightarrow> 'a \<Rightarrow> 'b" where
  "lookup_or d table k = (case map_of table k of None \<Rightarrow> d | Some v \<Rightarrow> v)"

definition demo_platform :: platform where
  "demo_platform =
     \<lparr>hmac_sha256 = (\<lambda>k d. lookup_or [] demo_hmac_table (k, d)),
      sha256 = lookup_or [] [(demo_verifier, demo_verifier_digest)],
      btoa = lookup_or [] demo_btoa_table,
      atob = map_of (map (\<lambda>(plain_text, b64). (b64, plain_text)) demo_btoa_table),
      atob_error = (\<lambda>t. Error None ''Invalid character''),
      json_parse = map_of demo_json_table,
      syntax_error = (\<lambda>t. Error None ''Unexpected end of JSON input''),
      json_stringify = lookup_or [] (map (\<lambda>(t, v). (v, t)) demo_json_table),
      to_number = (\<lambda>v. None),
      to_iso_string = lookup_or [] [(3000000, ''1970-01-01T00:50:00.000Z'')]\<rparr>"

definition rnd0 :: random_source where
  "rnd0 = (\<lambda>i. 0)"

definition rnd1 :: random_source where
  "rnd1 = (\<lambda>i. 1)"

text \<open>
  A pending request made at time 1000000 (so it expires at 1600000), and the same
  request for an address the directory does not know.
\<close>

definition demo_request :: AuthRequestStored where
  "demo_request =
     \<lparr>ar_id = ''req-1'', ar_email = ''a@example.com'', ar_customer_id = None,
      ar_client_id = ''client-1'', ar_client_name = ''Demo client'',
      ar_scopes = [''orders''], ar_code_challenge = demo_challenge,
      ar_status = Pending, ar_code = None,
      ar_created_at = 1000000, ar_expires_at = 1600000\<rparr>"

definition demo_pending :: env_state where
  "demo_pending =
     \<lparr>auth_codes = [], refresh_tokens = [],
      AUTH_REQUESTS = [''req-1'' \<mapsto> Json demo_request],
      MAGIC_LINK_TOKENS = [''magic-1'' \<mapsto> ''req-1'']\<rparr>"

definition demo_unknown :: env_state where
  "demo_unknown =
     \<lparr>auth_codes = [], refresh_tokens = [],
      AUTH_REQUESTS = [''req-1'' \<mapsto> Json (demo_request\<lparr>ar_email := ''nobody''\<rparr>)],
      MAGIC_LINK_TOKENS = [''magic-1'' \<mapsto> ''req-1'']\<rparr>"

text \<open>The states after the link is confirmed at 1000000 and the code exchanged at 1000000.\<close>

definition demo_code :: string where
  "demo_code = ''00000000000000000000000000000000''"

definition demo_code_row :: auth_code_row where
  "demo_code_row =
     \<lparr>ac_code = demo_code, ac_customer_email = ''a@example.com'',
      ac_cordial_contact_id = ''cust_b1p082'', ac_client_id = ''client-1'',
      ac_scopes = Json [''orders''], ac_code_challenge = demo_challenge,
      ac_expires_at = 1300000, ac_used = False, ac_created_at = 1000000\<rparr>"

definition demo_confirmed :: env_state where
  "demo_confirmed =
     \<lparr>auth_codes = [demo_code_row], refresh_tokens = [],
      AUTH_REQUESTS = [''req-1'' \<mapsto> Json (demo_request\<lparr>ar_status := Authorized,
                         ar_code := Some demo_code, ar_customer_id := Some ''cust_b1p082''\<rparr>)],
      MAGIC_LINK_TOKENS = Map.empty\<rparr>"

definition demo_refresh_value :: string where
  "demo_refresh_value = ''AAAAAAAAAAAAAAAAAAAAAAAAAAAAAAAAAAAAAAAAAAA''"

definition demo_refresh_value1 :: string where
  "demo_refresh_value1 = ''AQEBAQEBAQEBAQEBAQEBAQEBAQEBAQEBAQEBAQEBAQE''"

definition demo_refresh_row :: refresh_token_row where
  "demo_refresh_row =
     \<lparr>rt_token = demo_refresh_value, rt_customer_email = ''a@example.com'',
      rt_cordial_contact_id = ''cust_b1p082'', rt_client_id = ''client-1'',
      rt_scopes = Json [''orders''], rt_expires_at = 2593000000,
      rt_created_at = 1000000, rt_last_used = None\<rparr>"

definition demo_exchanged :: env_state where
  "demo_exchanged =
     demo_confirmed\<lparr>auth_codes := [demo_code_row\<lparr>ac_used := True\<rparr>],
                    refresh_tokens := [demo_refresh_row]\<rparr>"

definition demo_exchange_response :: exchange_response where
  "demo_exchange_response =
     \<lparr>x_access_token = demo_token, x_refresh_token = demo_refresh_value,
      x_token_type = ''Bearer'', x_expires_in = 3600, x_scope = ''orders'',
      x_customer_id = ''cust_b1p082'', x_email = ''a@example.com''\<rparr>"

definition demo_refresh_response :: refresh_response where
  "demo_refresh_response =
     \<lparr>r_access_token = demo_token_refreshed, r_refresh_token = demo_refresh_value1,
      r_token_type = ''Bearer'', r_expires_in = 3600, r_scope = ''orders''\<rparr>"

definition demo_refreshed :: env_state where
  "demo_refreshed =
     demo_exchanged\<lparr>refresh_tokens :=
       [demo_refresh_row\<lparr>rt_token := demo_refresh_value1, rt_last_used := Some 2000000\<rparr>]\<rparr>"

text \<open>An activity log of one intent: created, fulfilled, then updated without a status.\<close>

definition demo_created :: activity where
  "demo_created =
     \<lparr>act_action = ''scp_intent_created'', act_timestamp = ''2025-01-01T00:00:00.000Z'',
      act_data = JObj [(''intent_id'', JStr ''intent_1''), (''base_intent'', JStr ''boots''),
                       (''status'', JStr ''created''), (''source'', JStr ''ai_assistant'')]\<rparr>"

definition demo_fulfilled :: activity where
  "demo_fulfilled =
     \<lparr>act_action = ''scp_intent_updated'', act_timestamp = ''2025-01-02T00:00:00.000Z'',
      act_data = JObj [(''intent_id'', JStr ''intent_1''), (''status'', JStr ''fulfilled''),
                       (''source'', JStr ''ai_assistant'')]\<rparr>"

definition demo_noted :: activity where
  "demo_noted =
     \<lparr>act_action = ''scp_intent_updated'', act_timestamp = ''2025-01-03T00:00:00.000Z'',
      act_data = JObj [(''intent_id'', JStr ''intent_1''),
                       (''context'', JObj [(''note'', JStr ''thanks'')]),
                       (''source'', JStr ''ai_assistant'')]\<rparr>"

definition demo_rpc_state :: rpc_state where
  "demo_rpc_state =
     \<lparr>console = [],
      MOCK_INTENTS = [Some (JStr ''cust_b1p082'') \<mapsto> [demo_created, demo_fulfilled, demo_noted]]\<rparr>"

text \<open>The signed text of the demo token under a signature that is not its HMAC.\<close>

definition demo_forged_signature :: string where
  "demo_forged_signature = ''AAAAAAAAAAAAAAAAAAAAAAAAAAAAAAAAAAAAAAAAAAA''"

definition demo_token_forged :: string where
  "demo_token_forged = demo_token_signed @ ''.'' @ demo_forged_signature"

text \<open>The state after the unknown address has been denied.\<close>

definition demo_denied :: env_state where
  "demo_denied =
     \<lparr>auth_codes = [], refresh_tokens = [],
      AUTH_REQUESTS = [''req-1'' \<mapsto> Json (demo_request\<lparr>ar_email := ''nobody'', ar_status := Denied\<rparr>)],
      MAGIC_LINK_TOKENS = [''magic-1'' \<mapsto> ''req-1'']\<rparr>"

text \<open>The state after the link is confirmed late, at 2000000.\<close>

definition demo_confirmed_late :: env_state where
  "demo_confirmed_late =
     demo_confirmed\<lparr>auth_codes :=
       [demo_code_row\<lparr>ac_expires_at := 2300000, ac_created_at := 2000000\<rparr>]\<rparr>"

definition demo_request_loyalty :: rpc_request where
  "demo_request_loyalty = \<lparr>rq_id = JNum 1, rq_method = ''scp.get_loyalty'', rq_params = None\<rparr>"

definition demo_request_orders :: rpc_request where
  "demo_request_orders = \<lparr>rq_id = JNum 2, rq_method = ''scp.get_orders'', rq_params = None\<rparr>"

text \<open>The signed text of the token with the \<^verbatim>\<open>none\<close> header under a signature that is not its HMAC.\<close>

definition demo_token_none_forged :: string where
  "demo_token_none_forged = demo_token_none_signed @ ''.'' @ demo_forged_signature"

text \<open>The state after a refresh at 2000000 whose random bytes repeat the stored token.\<close>

definition demo_collided :: env_state where
  "demo_collided =
     demo_exchanged\<lparr>refresh_tokens := [demo_refresh_row\<lparr>rt_last_used := Some 2000000\<rparr>]\<rparr>"

definition demo_collided_response :: refresh_response where
  "demo_collided_response =
     \<lparr>r_access_token = demo_token_refreshed, r_refresh_token = demo_refresh_value,
      r_token_type = ''Bearer'', r_expires_in = 3600, r_scope = ''orders''\<rparr>"

text \<open>The same three activities under an id that is an array.\<close>

definition demo_created_array :: activity where
  "demo_created_array =
     \<lparr>act_action = ''scp_intent_created'', act_timestamp = ''2025-01-01T00:00:00.000Z'',
      act_data = JObj [(''intent_id'', JArr [JStr ''x'']), (''base_intent'', JStr ''boots''),
                       (''status'', JStr ''created''), (''source'', JStr ''ai_assistant'')]\<rparr>"

definition demo_fulfilled_array :: activity where
  "demo_fulfilled_array =
     \<lparr>act_action = ''scp_intent_updated'', act_timestamp = ''2025-01-02T00:00:00.000Z'',
      act_data = JObj [(''intent_id'', JArr [JStr ''x'']), (''status'', JStr ''fulfilled''),
                       (''source'', JStr ''ai_assistant'')]\<rparr>"

definition demo_noted_array :: activity where
  "demo_noted_array =
     \<lparr>act_action = ''scp_intent_updated'', act_timestamp = ''2025-01-03T00:00:00.000Z'',
      act_data = JObj [(''intent_id'', JArr [JStr ''x'']),
                       (''context'', JObj [(''note'', JStr ''thanks'')]),
                       (''source'', JStr ''ai_assistant'')]\<rparr>"


section \<open>The examples, evaluated\<close>

lemmas demo_defs =
  demo_header_json_def demo_header_text_def demo_header_b64_def demo_header_part_def
  demo_header_none_json_def demo_header_none_text_def demo_header_none_b64_def
  demo_header_none_part_def demo_claims_json_def demo_claims_text_def demo_claims_b64_def
  demo_claims_part_def demo_claims_no_exp_json_def demo_claims_no_exp_text_def
  demo_claims_no_exp_b64_def demo_claims_no_exp_part_def demo_claims_refreshed_json_def
  demo_claims_refreshed_text_def demo_claims_refreshed_b64_def
  demo_claims_refreshed_part_def demo_verifier_def demo_verifier_digest_def
  demo_challenge_def demo_token_signed_def demo_token_digest_def
  demo_token_signature_b64_def demo_token_signature_def demo_token_def
  demo_token_none_signed_def demo_token_none_digest_def demo_token_none_signature_b64_def
  demo_token_none_signature_def demo_token_none_def demo_token_no_exp_signed_def
  demo_token_no_exp_digest_def demo_token_no_exp_signature_b64_def
  demo_token_no_exp_signature_def demo_token_no_exp_def demo_token_refreshed_signed_def
  demo_token_refreshed_digest_def demo_token_refreshed_signature_b64_def
  demo_token_refreshed_signature_def demo_token_refreshed_def demo_challenge_b64_def
  demo_bytes0_def demo_bytes1_def demo_bytes0_b64_def demo_bytes1_b64_def demo_secret_def
  demo_btoa_table_def demo_hmac_table_def demo_json_table_def lookup_or_def
  demo_platform_def rnd0_def rnd1_def demo_request_def demo_pending_def demo_unknown_def
  demo_code_def demo_code_row_def demo_confirmed_def demo_refresh_value_def
  demo_refresh_value1_def demo_refresh_row_def demo_exchanged_def
  demo_exchange_response_def demo_refresh_response_def demo_refreshed_def
  demo_created_def demo_fulfilled_def demo_noted_def demo_rpc_state_def
  demo_forged_signature_def demo_token_forged_def demo_denied_def demo_confirmed_late_def
  demo_request_loyalty_def demo_request_orders_def demo_token_none_forged_def
  demo_collided_def demo_collided_response_def demo_created_array_def
  demo_fulfilled_array_def demo_noted_array_def

lemma demo_pkce: "verifyPKCE demo_platform demo_verifier demo_challenge"
  by code_simp

lemma demo_access:
  "generateAccessToken demo_platform ''cust_b1p082'' ''a@example.com'' [''orders'']
     demo_secret 1000000 = demo_token"
  by code_simp

lemma demo_access_refreshed:
  "generateAccessToken demo_platform ''cust_b1p082'' ''a@example.com'' [''orders'']
     demo_secret 2000000 = demo_token_refreshed"
  by code_simp

lemma demo_refresh_value_rnd0: "generateRefreshToken demo_platform rnd0 = demo_refresh_value"
  by code_simp

lemma demo_refresh_value_rnd1: "generateRefreshToken demo_platform rnd1 = demo_refresh_value1"
  by code_simp

lemma demo_code_rnd0: "generateId rnd0 = demo_code"
  by code_simp

lemma seed_after_7:
  "seed_after 7 seed
     = next_seed (next_seed (next_seed (next_seed (next_seed (next_seed (next_seed seed))))))"
  by (simp add: eval_nat_numeral)

lemma demo_hash: "hashEmail ''a@example.com'' = 667974242"
  by (simp add: hashEmail_def)

lemma demo_seed: "seed_after 7 667974242 = 47781"
  by (simp add: seed_after_7 next_seed_def)

lemma demo_radix: "to_radix 36 (nat 667974242) = ''b1p082''"
  by (simp add: to_radix.simps digit_char_def)

lemma demo_lower: "map to_lower_char ''a@example.com'' = ''a@example.com''"
  by (simp add: to_lower_char_def)

lemma demo_generated:
  "generateCustomerFromEmail ''a@example.com''
     = Inr \<lparr>cust_customer_id = ''cust_b1p082'', cust_email = ''a@example.com''\<rparr>"
  unfolding generateCustomerFromEmail_def Let_def demo_hash demo_seed demo_radix demo_lower
  by simp

lemma demo_customer:
  "verifyEmail ''a@example.com''
     = Inr \<lparr>v_exists = True, v_customerId = Some ''cust_b1p082''\<rparr>"
  by (simp add: verifyEmail_def getCustomerByEmail_def demo_generated)

lemma demo_synthetic_hash: "hashEmail ''customer_b1p082@example.com'' = 673237127"
  by (simp add: hashEmail_def)

lemma demo_synthetic_seed: "seed_after 7 673237127 = 146646"
  by (simp add: seed_after_7 next_seed_def)

lemma demo_synthetic_generated:
  "generateCustomerFromEmail ''customer_b1p082@example.com''
     = Inl (Error None ''Cannot read properties of undefined (reading 'favorite_brands')'')"
  unfolding generateCustomerFromEmail_def Let_def demo_synthetic_hash demo_synthetic_seed
  by simp

lemma demo_id_parsed: "\<not> parseInt36_is_NaN ''b1p082''"
  by (simp add: parseInt36_is_NaN_def is_js_space_def is_digit36_def)

lemma demo_customer_by_id:
  "getCustomerById (Some (JStr ''cust_b1p082''))
     = Inl (Error None ''Cannot read properties of undefined (reading 'favorite_brands')'')"
proof -
  have "replace_first ''cust_'' [] ''cust_b1p082'' = ''b1p082''"
    by code_simp
  then show ?thesis
    using demo_synthetic_generated demo_id_parsed by (simp add: getCustomerById_def)
qed

lemma demo_refresh_values_differ: "demo_refresh_value1 \<noteq> demo_refresh_value"
  by code_simp

lemma demo_confirm_run:
  "confirmAuthorization demo_platform verifyEmail ''magic-1'' 1000000 rnd0 demo_pending
     = (demo_confirmed, Inr ())"
  by (simp add: Let_def confirmAuthorization_def demo_customer demo_code_rnd0
        demo_pending_def demo_confirmed_def demo_request_def demo_code_row_def)

lemma demo_exchange_run:
  "exchangeCodeForTokens demo_platform demo_secret demo_code demo_verifier ''client-1'' 1000000 rnd0
     demo_confirmed = (demo_exchanged, Inr demo_exchange_response)"
  by (simp add: Let_def exchangeCodeForTokens_def demo_pkce demo_access demo_refresh_value_rnd0
        mark_used_def demo_confirmed_def demo_exchanged_def demo_code_row_def
        demo_exchange_response_def demo_refresh_row_def)

lemma demo_refresh_run:
  "refreshAccessToken demo_platform demo_secret demo_refresh_value ''client-1'' 2000000 rnd1
     demo_exchanged = (demo_refreshed, Inr demo_refresh_response)"
  by (simp add: Let_def refreshAccessToken_def demo_access_refreshed demo_refresh_value_rnd1
        demo_refresh_values_differ rotate_def demo_confirmed_def demo_exchanged_def
        demo_refreshed_def demo_refresh_response_def demo_refresh_row_def)

lemma demo_unknown_customer:
  "verifyEmail ''nobody'' = Inr \<lparr>v_exists = False, v_customerId = None\<rparr>"
  by (simp add: verifyEmail_def)

lemma demo_collision_run:
  "refreshAccessToken demo_platform demo_secret demo_refresh_value ''client-1'' 2000000 rnd0
     demo_exchanged = (demo_collided, Inr demo_collided_response)"
  by (simp add: Let_def refreshAccessToken_def demo_access_refreshed demo_refresh_value_rnd0
        rotate_def demo_confirmed_def demo_exchanged_def demo_collided_def
        demo_collided_response_def demo_refresh_row_def)

lemma demo_token_parts:
  "split_on CHR ''.'' demo_token = [demo_header_part, demo_claims_part, demo_token_signature]"
  by code_simp

lemma demo_token_none_parts:
  "split_on CHR ''.'' demo_token_none
     = [demo_header_none_part, demo_claims_part, demo_token_none_signature]"
  by code_simp

lemma demo_token_no_exp_parts:
  "split_on CHR ''.'' demo_token_no_exp
     = [demo_header_part, demo_claims_no_exp_part, demo_token_no_exp_signature]"
  by code_simp

lemma demo_token_forged_parts:
  "split_on CHR ''.'' demo_token_forged = [demo_header_part, demo_claims_part, demo_forged_signature]"
  by code_simp

lemma demo_token_none_forged_parts:
  "split_on CHR ''.'' demo_token_none_forged
     = [demo_header_none_part, demo_claims_part, demo_forged_signature]"
  by code_simp

lemma demo_token_signed_ok:
  "demo_token_signature = sign demo_platform (demo_header_part @ ''.'' @ demo_claims_part) demo_secret"
  by code_simp

lemma demo_token_none_signed_ok:
  "demo_token_none_signature
     = sign demo_platform (demo_header_none_part @ ''.'' @ demo_claims_part) demo_secret"
  by code_simp

lemma demo_token_no_exp_signed_ok:
  "demo_token_no_exp_signature
     = sign demo_platform (demo_header_part @ ''.'' @ demo_claims_no_exp_part) demo_secret"
  by code_simp

lemma demo_forged_not_signed:
  "demo_forged_signature \<noteq> sign demo_platform (demo_header_part @ ''.'' @ demo_claims_part) demo_secret"
  by code_simp

lemma demo_forged_none_not_signed:
  "demo_forged_signature
     \<noteq> sign demo_platform (demo_header_none_part @ ''.'' @ demo_claims_part) demo_secret"
  by code_simp

lemma demo_claims_decoded:
  "base64urlDecode demo_platform demo_claims_part = Inr demo_claims_text"
  "json_parse demo_platform demo_claims_text = Some demo_claims_json"
  by code_simp+

lemma demo_claims_no_exp_decoded:
  "base64urlDecode demo_platform demo_claims_no_exp_part = Inr demo_claims_no_exp_text"
  "json_parse demo_platform demo_claims_no_exp_text = Some demo_claims_no_exp_json"
  by code_simp+

lemma demo_token_verified:
  "verifyAccessToken demo_platform demo_token demo_secret 2000000 = Inr demo_claims_json"
  by code_simp


section \<open>The verifier, once the token has three parts\<close>

lemma verifyJWT_parts:
  assumes "split_on CHR ''.'' token = [h, p, sg]"
  shows "verifyJWT P token secret now =
           (if sg \<noteq> sign P (h @ ''.'' @ p) secret then Inl (Error None ''Invalid JWT signature'')
            else (case base64urlDecode P p of
                    Inl e \<Rightarrow> Inl e
                  | Inr text \<Rightarrow>
                      (case json_parse P text of
                         None \<Rightarrow> Inl (syntax_error P text)
                       | Some payload \<Rightarrow>
                           if payload = JNull
                           then Inl (Error None ''Cannot read properties of null (reading 'exp')'')
                           else (case get_prop payload ''exp'' of
                                   None \<Rightarrow> Inr payload
                                 | Some e \<Rightarrow>
                                     if truthy e \<and> js_less_than P e (now div 1000)
                                     then Inl (Error None ''JWT expired'')
                                     else Inr payload))))"
  using assms by (simp add: verifyJWT_def)


section \<open>Authorization codes are single-use\<close>

lemma find_unused_mark_used:
  "find (\<lambda>r. ac_code r = c \<and> \<not> ac_used r) (mark_used c rows) = None"
  by (induction rows) (simp_all add: mark_used_def)

lemma exchange_success_auth_codes:
  assumes "exchangeCodeForTokens P secret c v cid now rnd s = (s', Inr resp)"
  shows "auth_codes s' = mark_used c (auth_codes s)"
  using assms
  by (auto simp: exchangeCodeForTokens_def Let_def split: option.splits if_splits json_text.splits)

text \<open>
  Claim C1. If an exchange of a code succeeds, leaving state \<open>s'\<close>, then a second
  exchange of the same code in that state fails, whatever verifier, client id,
  secret, clock and random bytes it is given: \<^verbatim>\<open>exchangeCodeForTokens\<close> throws
  \<^verbatim>\<open>Invalid or used authorization code\<close> and leaves the state as it is, and the
  \<^verbatim>\<open>/v1/token\<close> route answers \<^verbatim>\<open>invalid_grant\<close>. The first success has set
  \<^verbatim>\<open>used\<close> on every row of that code, and the fetch only sees rows with
  \<^verbatim>\<open>used = 0\<close>.
\<close>

theorem exchange_twice_invalid_grant:
  assumes "exchangeCodeForTokens P secret c v cid now rnd s = (s', Inr resp)"
  shows "exchangeCodeForTokens P secret2 c v2 cid2 now2 rnd2 s'
           = (s', Inl (Error None ''Invalid or used authorization code''))
       \<and> token_route P secret2
           \<lparr>tr_grant_type = ''authorization_code'', tr_code = c, tr_code_verifier = v2,
            tr_client_id = cid2, tr_refresh_token = rt2\<rparr> now2 rnd2 s'
           = (s', TokenError ''invalid_grant'' ''Invalid or used authorization code'')"
proof -
  have "find (\<lambda>r. ac_code r = c \<and> \<not> ac_used r) (auth_codes s') = None"
    using exchange_success_auth_codes[OF assms] find_unused_mark_used by simp
  then have first: "exchangeCodeForTokens P secret2 c v2 cid2 now2 rnd2 s'
           = (s', Inl (Error None ''Invalid or used authorization code''))"
    by (simp add: exchangeCodeForTokens_def)
  then show ?thesis by (simp add: token_route_def)
qed

theorem exchange_twice_invalid_grant_witness:
  "exchangeCodeForTokens demo_platform demo_secret demo_code demo_verifier ''client-1'' 1000000 rnd0
     demo_confirmed = (demo_exchanged, Inr demo_exchange_response)
   \<and> exchangeCodeForTokens demo_platform demo_secret demo_code demo_verifier ''client-1'' 1000001 rnd1
       demo_exchanged = (demo_exchanged, Inl (Error None ''Invalid or used authorization code''))
   \<and> token_route demo_platform demo_secret
        \<lparr>tr_grant_type = ''authorization_code'', tr_code = demo_code,
         tr_code_verifier = demo_verifier, tr_client_id = ''client-1'', tr_refresh_token = []\<rparr>
        1000001 rnd1 demo_exchanged
       = (demo_exchanged, TokenError ''invalid_grant'' ''Invalid or used authorization code'')"
  using demo_exchange_run
    exchange_twice_invalid_grant [OF demo_exchange_run,
      of demo_secret demo_verifier "''client-1''" 1000001 rnd1 "[]"]
  by simp

text \<open>
  The same holds with other calls in between. A successful exchange leaves its code
  spent; a spent code stays spent through every operation that writes to the state
  (no operation deletes a row of \<^verbatim>\<open>auth_codes\<close> or clears \<^verbatim>\<open>used\<close>, and a confirm
  cannot insert a second row under a code the table has); and exchanging a spent
  code is refused.
\<close>

lemma mark_used_codes: "map ac_code (mark_used c rows) = map ac_code rows"
  by (induction rows) (simp_all add: mark_used_def)

lemma mark_used_keeps_used:
  "find (\<lambda>r. ac_code r = c \<and> \<not> ac_used r) rows = None
   \<Longrightarrow> find (\<lambda>r. ac_code r = c \<and> \<not> ac_used r) (mark_used c' rows) = None"
  by (induction rows) (auto simp: mark_used_def split: if_splits)

lemma exchange_leaves_spent:
  assumes "exchangeCodeForTokens P secret c v cid now rnd s = (s', Inr resp)"
  shows "spent c s'"
proof -
  have rows: "auth_codes s' = mark_used c (auth_codes s)"
    by (rule exchange_success_auth_codes [OF assms])
  have "find (\<lambda>r. ac_code r = c \<and> \<not> ac_used r) (auth_codes s) \<noteq> None"
    using assms by (auto simp: exchangeCodeForTokens_def split: option.splits)
  then obtain r where "r \<in> set (auth_codes s)" "ac_code r = c"
    by (auto simp: find_None_iff)
  then have "c \<in> set (map ac_code (auth_codes s))" by force
  then show ?thesis
    using rows by (simp add: spent_def mark_used_codes find_unused_mark_used)
qed

lemma exchange_auth_codes:
  "auth_codes (fst (exchangeCodeForTokens P secret c v cid now rnd s)) = auth_codes s
   \<or> auth_codes (fst (exchangeCodeForTokens P secret c v cid now rnd s)) = mark_used c (auth_codes s)"
  by (auto simp: exchangeCodeForTokens_def Let_def split: option.splits json_text.splits)

lemma spent_after_exchange:
  assumes "spent c s"
  shows "spent c (fst (exchangeCodeForTokens P secret c' v cid now rnd s))"
  using assms exchange_auth_codes [of P secret c' v cid now rnd s]
  by (auto simp: spent_def mark_used_codes mark_used_keeps_used simp del: set_map)

lemma spent_after_refresh:
  assumes "spent c s"
  shows "spent c (fst (refreshAccessToken P secret tok cid now rnd s))"
  using assms
  by (auto simp: spent_def refreshAccessToken_def Let_def split: option.splits json_text.splits)

lemma spent_after_revoke:
  assumes "spent c s"
  shows "spent c (revokeToken tok s)"
  using assms by (simp add: spent_def revokeToken_def)

lemma spent_after_confirm:
  assumes "spent c s"
  shows "spent c (fst (confirmAuthorization P verify tok now rnd s))"
proof -
  have "auth_codes (fst (confirmAuthorization P verify tok now rnd s)) = auth_codes s
      \<or> (\<exists>row. auth_codes (fst (confirmAuthorization P verify tok now rnd s)) = auth_codes s @ [row]
               \<and> ac_code row \<notin> set (map ac_code (auth_codes s)))"
    by (auto simp: confirmAuthorization_def deny_request_def Let_def
        split: option.splits json_text.splits sum.splits)
  then show ?thesis
  proof
    assume "auth_codes (fst (confirmAuthorization P verify tok now rnd s)) = auth_codes s"
    then show ?thesis using assms by (simp add: spent_def)
  next
    assume "\<exists>row. auth_codes (fst (confirmAuthorization P verify tok now rnd s)) = auth_codes s @ [row]
               \<and> ac_code row \<notin> set (map ac_code (auth_codes s))"
    then obtain row where
      rows: "auth_codes (fst (confirmAuthorization P verify tok now rnd s)) = auth_codes s @ [row]"
      and new: "ac_code row \<notin> set (map ac_code (auth_codes s))"
      by blast
    have "ac_code row \<noteq> c" using new assms by (auto simp: spent_def)
    then show ?thesis
      using assms rows by (auto simp: spent_def find_None_iff)
  qed
qed

lemma spent_code_refused:
  assumes "spent c s"
  shows "exchangeCodeForTokens P secret c v cid now rnd s
           = (s, Inl (Error None ''Invalid or used authorization code''))"
  using assms by (simp add: spent_def exchangeCodeForTokens_def)


section \<open>Confirming a magic link\<close>

lemma generateId_length: "length (generateId rnd) = 32"
  by (simp add: generateId_def hex_byte_def length_concat comp_def sum_list_triv)

lemma confirm_success_cases:
  assumes "confirmAuthorization P verify tok now rnd s = (s', Inr u)"
  obtains rid req v cust where
    "MAGIC_LINK_TOKENS s tok = Some rid" "rid \<noteq> []"
    "AUTH_REQUESTS s rid = Some (Json req)"
    "verify (ar_email req) = Inr v" "v_exists v" "v_customerId v = Some cust" "cust \<noteq> []"
    "generateId rnd \<notin> set (map ac_code (auth_codes s))"
    "s' = s\<lparr>auth_codes := auth_codes s @
                 [\<lparr>ac_code = generateId rnd,
                   ac_customer_email = ar_email req,
                   ac_cordial_contact_id = cust,
                   ac_client_id = ar_client_id req,
                   ac_scopes = Json (ar_scopes req),
                   ac_code_challenge = ar_code_challenge req,
                   ac_expires_at = now + 5 * 60 * 1000,
                   ac_used = False,
                   ac_created_at = now\<rparr>],
             AUTH_REQUESTS := (AUTH_REQUESTS s)(rid \<mapsto>
                 Json (req\<lparr>ar_status := Authorized, ar_code := Some (generateId rnd),
                          ar_customer_id := Some cust\<rparr>)),
             MAGIC_LINK_TOKENS := (MAGIC_LINK_TOKENS s)(tok := None)\<rparr>"
  using assms
  by (auto simp: confirmAuthorization_def Let_def
      split: option.splits if_splits json_text.splits sum.splits)

lemma hex_digit_in: "d < 16 \<Longrightarrow> hex_digit d \<in> set ''0123456789abcdef''"
  unfolding hex_digit_def by (rule nth_mem) simp

lemma byte_nibbles: "unat (b :: 8 word) div 16 < 16" "unat b mod 16 < 16"
proof -
  have "(unsigned b :: nat) < 2 ^ LENGTH(8)"
    by (rule unsigned_less)
  then have "unat b < 256"
    by simp
  then show "unat b div 16 < 16"
    by arith
  show "unat b mod 16 < 16"
    by simp
qed

lemma generateId_within:
  assumes "\<And>d. d < 16 \<Longrightarrow> hex_digit d \<in> S"
  shows "set (generateId rnd) \<subseteq> S"
  using assms byte_nibbles by (auto simp: generateId_def hex_byte_def)

lemma generateId_hex: "set (generateId rnd) \<subseteq> set ''0123456789abcdef''"
  by (rule generateId_within) (rule hex_digit_in)

text \<open>
  Claim C2, as amended. If confirming a magic-link token succeeds, then the token was
  mapped to a request, the directory verified the request's address and returned a
  customer id, and the state left behind is the old one with exactly three changes:
  a row is appended to \<^verbatim>\<open>auth_codes\<close> that carries a fresh code of 32 hexadecimal
  characters, the verified customer id, the request's client, scopes and challenge,
  a lifetime of five minutes and \<^verbatim>\<open>used = 0\<close>; the request is stored with status
  \<^verbatim>\<open>authorized\<close>, that code and that customer id; and the token's mapping is
  deleted. Confirming the same token again, in the state the first confirm left,
  throws \<^verbatim>\<open>Invalid or expired magic link\<close> and leaves that state as it is, whatever
  directory, clock and random bytes the second call is given. (The claim as written
  also promises the deletion after a confirm that fails; see the counterexample.)
\<close>

theorem confirm_once_then_invalid_link:
  assumes "confirmAuthorization P verify tok now rnd s = (s', Inr u)"
  shows "\<exists>rid req v cust.
           MAGIC_LINK_TOKENS s tok = Some rid
         \<and> AUTH_REQUESTS s rid = Some (Json req)
         \<and> verify (ar_email req) = Inr v \<and> v_exists v
         \<and> v_customerId v = Some cust \<and> cust \<noteq> []
         \<and> length (generateId rnd) = 32
         \<and> set (generateId rnd) \<subseteq> set ''0123456789abcdef''
         \<and> s' = s\<lparr>auth_codes := auth_codes s @
                      [\<lparr>ac_code = generateId rnd,
                        ac_customer_email = ar_email req,
                        ac_cordial_contact_id = cust,
                        ac_client_id = ar_client_id req,
                        ac_scopes = Json (ar_scopes req),
                        ac_code_challenge = ar_code_challenge req,
                        ac_expires_at = now + 5 * 60 * 1000,
                        ac_used = False,
                        ac_created_at = now\<rparr>],
                    AUTH_REQUESTS := (AUTH_REQUESTS s)(rid \<mapsto>
                      Json (req\<lparr>ar_status := Authorized, ar_code := Some (generateId rnd),
                               ar_customer_id := Some cust\<rparr>)),
                    MAGIC_LINK_TOKENS := (MAGIC_LINK_TOKENS s)(tok := None)\<rparr>
         \<and> AUTH_REQUESTS s' rid =
             Some (Json (req\<lparr>ar_status := Authorized, ar_code := Some (generateId rnd),
                              ar_customer_id := Some cust\<rparr>))
         \<and> MAGIC_LINK_TOKENS s' tok = None
         \<and> confirmAuthorization P verify2 tok now2 rnd2 s'
             = (s', Inl (Error None ''Invalid or expired magic link''))"
proof -
  from assms obtain rid req v cust where
    m: "MAGIC_LINK_TOKENS s tok = Some rid" and
    a: "AUTH_REQUESTS s rid = Some (Json req)" and
    v: "verify (ar_email req) = Inr v" "v_exists v" "v_customerId v = Some cust" "cust \<noteq> []" and
    s': "s' = s\<lparr>auth_codes := auth_codes s @
                 [\<lparr>ac_code = generateId rnd,
                   ac_customer_email = ar_email req,
                   ac_cordial_contact_id = cust,
                   ac_client_id = ar_client_id req,
                   ac_scopes = Json (ar_scopes req),
                   ac_code_challenge = ar_code_challenge req,
                   ac_expires_at = now + 5 * 60 * 1000,
                   ac_used = False,
                   ac_created_at = now\<rparr>],
             AUTH_REQUESTS := (AUTH_REQUESTS s)(rid \<mapsto>
                 Json (req\<lparr>ar_status := Authorized, ar_code := Some (generateId rnd),
                          ar_customer_id := Some cust\<rparr>)),
             MAGIC_LINK_TOKENS := (MAGIC_LINK_TOKENS s)(tok := None)\<rparr>"
    by (rule confirm_success_cases)
  have stored: "AUTH_REQUESTS s' rid =
             Some (Json (req\<lparr>ar_status := Authorized, ar_code := Some (generateId rnd),
                              ar_customer_id := Some cust\<rparr>))"
    using s' by simp
  have gone: "MAGIC_LINK_TOKENS s' tok = None"
    using s' by simp
  then have again: "confirmAuthorization P verify2 tok now2 rnd2 s'
             = (s', Inl (Error None ''Invalid or expired magic link''))"
    by (simp add: confirmAuthorization_def)
  show ?thesis
    using m a v generateId_length generateId_hex s' stored gone again by blast
qed

theorem confirm_once_then_invalid_link_witness:
  "confirmAuthorization demo_platform verifyEmail ''magic-1'' 1000000 rnd0 demo_pending
     = (demo_confirmed, Inr ())
   \<and> (\<exists>rid req v cust.
         MAGIC_LINK_TOKENS demo_pending ''magic-1'' = Some rid
       \<and> AUTH_REQUESTS demo_pending rid = Some (Json req)
       \<and> verifyEmail (ar_email req) = Inr v \<and> v_exists v
       \<and> v_customerId v = Some cust \<and> cust \<noteq> []
       \<and> length (generateId rnd0) = 32
       \<and> set (generateId rnd0) \<subseteq> set ''0123456789abcdef''
       \<and> demo_confirmed = demo_pending\<lparr>auth_codes := auth_codes demo_pending @
                      [\<lparr>ac_code = generateId rnd0,
                        ac_customer_email = ar_email req,
                        ac_cordial_contact_id = cust,
                        ac_client_id = ar_client_id req,
                        ac_scopes = Json (ar_scopes req),
                        ac_code_challenge = ar_code_challenge req,
                        ac_expires_at = 1000000 + 5 * 60 * 1000,
                        ac_used = False,
                        ac_created_at = 1000000\<rparr>],
                    AUTH_REQUESTS := (AUTH_REQUESTS demo_pending)(rid \<mapsto>
                      Json (req\<lparr>ar_status := Authorized, ar_code := Some (generateId rnd0),
                               ar_customer_id := Some cust\<rparr>)),
                    MAGIC_LINK_TOKENS := (MAGIC_LINK_TOKENS demo_pending)(''magic-1'' := None)\<rparr>
       \<and> AUTH_REQUESTS demo_confirmed rid =
           Some (Json (req\<lparr>ar_status := Authorized, ar_code := Some (generateId rnd0),
                            ar_customer_id := Some cust\<rparr>))
       \<and> MAGIC_LINK_TOKENS demo_confirmed ''magic-1'' = None
       \<and> confirmAuthorization demo_platform verifyEmail ''magic-1'' 1000005 rnd1 demo_confirmed
           = (demo_confirmed, Inl (Error None ''Invalid or expired magic link'')))"
  using demo_confirm_run
    confirm_once_then_invalid_link [OF demo_confirm_run, of verifyEmail 1000005 rnd1]
  by (intro conjI)

text \<open>
  Counterexample to claim C2 as written: the request's address is unknown to the
  directory. The first confirm fails with \<^verbatim>\<open>Customer not found in merchant system\<close>
  and leaves the token's mapping in place; the second confirm of the same token does
  not fail with the invalid-link error: it finds the mapping, runs the verification
  again and fails with the same customer-not-found error.
\<close>

theorem confirm_failed_keeps_link_counterexample:
  "confirmAuthorization demo_platform verifyEmail ''magic-1'' 1000000 rnd0 demo_unknown
     = (demo_denied, Inl (Error None ''Customer not found in merchant system''))
   \<and> MAGIC_LINK_TOKENS demo_denied ''magic-1'' = Some ''req-1''
   \<and> confirmAuthorization demo_platform verifyEmail ''magic-1'' 1000001 rnd0 demo_denied
     = (demo_denied, Inl (Error None ''Customer not found in merchant system''))"
  by (simp add: confirmAuthorization_def demo_unknown_customer deny_request_def
        demo_unknown_def demo_denied_def demo_request_def)


section \<open>Expiry comparisons\<close>

text \<open>
  Claim C3, as amended. Four operations compare the recorded expiry with the clock
  when they read the record, whether or not the store has evicted it:
  \<^item> \<^verbatim>\<open>pollAuthorization\<close>, for a request whose client id matches, answers
    \<^verbatim>\<open>expired\<close> when \<^verbatim>\<open>expires_at\<close> is earlier than the clock, whatever its status;
  \<^item> \<^verbatim>\<open>exchangeCodeForTokens\<close> throws \<^verbatim>\<open>Authorization code expired\<close> for an unused
    code whose \<^verbatim>\<open>expires_at\<close> is earlier than the clock, and changes nothing;
  \<^item> \<^verbatim>\<open>refreshAccessToken\<close> throws \<^verbatim>\<open>Refresh token expired\<close> for a row whose
    \<^verbatim>\<open>expires_at\<close> is earlier than the clock, and changes nothing;
  \<^item> \<^verbatim>\<open>verifyJWT\<close>, for a correctly signed token whose payload has a non-zero
    numeric \<^verbatim>\<open>exp\<close> earlier than the clock in seconds, throws \<^verbatim>\<open>JWT expired\<close>.
  \<^verbatim>\<open>confirmAuthorization\<close> is not among them; see the counterexample.
\<close>

theorem expiry_compared_at_read:
  "(AUTH_REQUESTS s rid = Some (Json req) \<and> ar_client_id req = cid \<and> ar_expires_at req < now
      \<longrightarrow> pollAuthorization rid cid now s = Inr PollExpired)
 \<and> (find (\<lambda>r. ac_code r = c \<and> \<not> ac_used r) (auth_codes s) = Some crow \<and> ac_expires_at crow < now
      \<longrightarrow> exchangeCodeForTokens P secret c v cid now rnd s
            = (s, Inl (Error None ''Authorization code expired'')))
 \<and> (find (\<lambda>r. rt_token r = tok) (refresh_tokens s) = Some rrow \<and> rt_expires_at rrow < now
      \<longrightarrow> refreshAccessToken P secret tok cid now rnd s
            = (s, Inl (Error None ''Refresh token expired'')))
 \<and> (split_on CHR ''.'' token = [h, p, sg] \<and> sg = sign P (h @ ''.'' @ p) secret
      \<and> base64urlDecode P p = Inr payload_text \<and> json_parse P payload_text = Some payload
      \<and> get_prop payload ''exp'' = Some (JNum e) \<and> e \<noteq> 0 \<and> e < now div 1000
      \<longrightarrow> verifyJWT P token secret now = Inl (Error None ''JWT expired''))"
proof (intro conjI impI)
  assume "AUTH_REQUESTS s rid = Some (Json req) \<and> ar_client_id req = cid \<and> ar_expires_at req < now"
  then show "pollAuthorization rid cid now s = Inr PollExpired"
    by (simp add: pollAuthorization_def)
next
  assume "find (\<lambda>r. ac_code r = c \<and> \<not> ac_used r) (auth_codes s) = Some crow \<and> ac_expires_at crow < now"
  then show "exchangeCodeForTokens P secret c v cid now rnd s
            = (s, Inl (Error None ''Authorization code expired''))"
    by (simp add: exchangeCodeForTokens_def)
next
  assume "find (\<lambda>r. rt_token r = tok) (refresh_tokens s) = Some rrow \<and> rt_expires_at rrow < now"
  then show "refreshAccessToken P secret tok cid now rnd s
            = (s, Inl (Error None ''Refresh token expired''))"
    by (simp add: refreshAccessToken_def)
next
  assume a: "split_on CHR ''.'' token = [h, p, sg] \<and> sg = sign P (h @ ''.'' @ p) secret
      \<and> base64urlDecode P p = Inr payload_text \<and> json_parse P payload_text = Some payload
      \<and> get_prop payload ''exp'' = Some (JNum e) \<and> e \<noteq> 0 \<and> e < now div 1000"
  then have "payload \<noteq> JNull" by auto
  with a show "verifyJWT P token secret now = Inl (Error None ''JWT expired'')"
    by (simp add: verifyJWT_def js_less_than_def js_number_def)
qed

theorem expiry_compared_at_read_witness:
  "pollAuthorization ''req-1'' ''client-1'' 2000000 demo_pending = Inr PollExpired
   \<and> exchangeCodeForTokens demo_platform demo_secret demo_code demo_verifier ''client-1''
        1300001 rnd0 demo_confirmed
       = (demo_confirmed, Inl (Error None ''Authorization code expired''))
   \<and> refreshAccessToken demo_platform demo_secret demo_refresh_value ''client-1''
        2593000001 rnd1 demo_exchanged
       = (demo_exchanged, Inl (Error None ''Refresh token expired''))
   \<and> verifyJWT demo_platform demo_token demo_secret 5000000 = Inl (Error None ''JWT expired'')"
proof -
  have poll_hyp: "AUTH_REQUESTS demo_pending ''req-1'' = Some (Json demo_request)
      \<and> ar_client_id demo_request = ''client-1'' \<and> ar_expires_at demo_request < 2000000"
    by (simp add: demo_pending_def demo_request_def)
  have code_hyp: "find (\<lambda>r. ac_code r = demo_code \<and> \<not> ac_used r) (auth_codes demo_confirmed)
        = Some demo_code_row \<and> ac_expires_at demo_code_row < 1300001"
    by (simp add: demo_confirmed_def demo_code_row_def)
  have refresh_hyp: "find (\<lambda>r. rt_token r = demo_refresh_value) (refresh_tokens demo_exchanged)
        = Some demo_refresh_row \<and> rt_expires_at demo_refresh_row < 2593000001"
    by (simp add: demo_exchanged_def demo_refresh_row_def)
  have exp_field: "get_prop demo_claims_json ''exp'' = Some (JNum 4600)"
    by (simp add: demo_claims_json_def)
  have token_hyp: "split_on CHR ''.'' demo_token = [demo_header_part, demo_claims_part, demo_token_signature]
      \<and> demo_token_signature = sign demo_platform (demo_header_part @ ''.'' @ demo_claims_part) demo_secret
      \<and> base64urlDecode demo_platform demo_claims_part = Inr demo_claims_text
      \<and> json_parse demo_platform demo_claims_text = Some demo_claims_json
      \<and> get_prop demo_claims_json ''exp'' = Some (JNum 4600) \<and> (4600::int) \<noteq> 0
      \<and> (4600::int) < 5000000 div 1000"
    using demo_token_parts demo_token_signed_ok demo_claims_decoded exp_field by simp
  have one: "pollAuthorization ''req-1'' ''client-1'' 2000000 demo_pending = Inr PollExpired"
    using poll_hyp
      expiry_compared_at_read [where s = demo_pending and rid = "''req-1''" and req = demo_request
        and cid = "''client-1''" and now = 2000000]
    by blast
  have two: "exchangeCodeForTokens demo_platform demo_secret demo_code demo_verifier ''client-1''
        1300001 rnd0 demo_confirmed
       = (demo_confirmed, Inl (Error None ''Authorization code expired''))"
    using code_hyp
      expiry_compared_at_read [where s = demo_confirmed and c = demo_code and crow = demo_code_row
        and now = 1300001 and P = demo_platform and secret = demo_secret and v = demo_verifier
        and cid = "''client-1''" and rnd = rnd0]
    by blast
  have three: "refreshAccessToken demo_platform demo_secret demo_refresh_value ''client-1''
        2593000001 rnd1 demo_exchanged
       = (demo_exchanged, Inl (Error None ''Refresh token expired''))"
    using refresh_hyp
      expiry_compared_at_read [where s = demo_exchanged and tok = demo_refresh_value
        and rrow = demo_refresh_row and now = 2593000001 and P = demo_platform
        and secret = demo_secret and cid = "''client-1''" and rnd = rnd1]
    by blast
  have four: "verifyJWT demo_platform demo_token demo_secret 5000000 = Inl (Error None ''JWT expired'')"
    using token_hyp
      expiry_compared_at_read [where token = demo_token and h = demo_header_part
        and p = demo_claims_part and sg = demo_token_signature and P = demo_platform
        and secret = demo_secret and payload_text = demo_claims_text and payload = demo_claims_json
        and e = 4600 and now = 5000000]
    by blast
  show ?thesis using one two three four by (intro conjI)
qed

text \<open>
  Counterexample to claim C3 as written: at clock 2000000 the store still returns a
  request whose \<^verbatim>\<open>expires_at\<close> is 1600000, and its magic-link token.
  \<^verbatim>\<open>confirmAuthorization\<close> does not reject it: it completes, issues a code and stores
  the request as authorized.
\<close>

theorem confirm_ignores_expiry_counterexample:
  "AUTH_REQUESTS demo_pending ''req-1'' = Some (Json demo_request)
   \<and> ar_expires_at demo_request < 2000000
   \<and> confirmAuthorization demo_platform verifyEmail ''magic-1'' 2000000 rnd0 demo_pending
       = (demo_confirmed_late, Inr ())
   \<and> AUTH_REQUESTS demo_confirmed_late ''req-1''
       = Some (Json (demo_request\<lparr>ar_status := Authorized, ar_code := Some demo_code,
                                  ar_customer_id := Some ''cust_b1p082''\<rparr>))"
  by (simp add: Let_def confirmAuthorization_def demo_customer demo_code_rnd0
        demo_pending_def demo_confirmed_def demo_confirmed_late_def demo_request_def
        demo_code_row_def)


section \<open>Refresh: scopes and rotation\<close>

lemma refresh_success_cases:
  assumes "refreshAccessToken P secret tok cid now rnd s = (s', Inr resp)"
  obtains row scopes where
    "find (\<lambda>r. rt_token r = tok) (refresh_tokens s) = Some row"
    "rt_scopes row = Json scopes"
    "\<not> rt_expires_at row < now"
    "rt_client_id row = cid"
    "s' = s\<lparr>refresh_tokens := rotate tok (generateRefreshToken P rnd) now (refresh_tokens s)\<rparr>"
    "resp = \<lparr>r_access_token = generateAccessToken P (rt_cordial_contact_id row)
                                  (rt_customer_email row) scopes secret now,
             r_refresh_token = generateRefreshToken P rnd,
             r_token_type = ''Bearer'',
             r_expires_in = 3600,
             r_scope = join_with '' '' scopes\<rparr>"
  using assms
  by (auto simp: refreshAccessToken_def Let_def split: option.splits if_splits json_text.splits)




lemma find_rotated_old:
  "new \<noteq> old \<Longrightarrow> find (\<lambda>r. rt_token r = old) (rotate old new now rows) = None"
  by (induction rows) (simp_all add: rotate_def)

lemma find_rotated_same:
  "find (\<lambda>r. rt_token r = old) rows = Some row \<Longrightarrow>
   find (\<lambda>r. rt_token r = old) (rotate old old now rows)
     = Some (row\<lparr>rt_last_used := Some now\<rparr>)"
  by (induction rows) (auto simp: rotate_def split: if_splits)

lemma rotate_nth:
  "i < length rows \<Longrightarrow>
   rotate old new now rows ! i =
     (if rt_token (rows ! i) = old
      then (rows ! i)\<lparr>rt_token := new, rt_last_used := Some now\<rparr> else rows ! i)"
  by (simp add: rotate_def)

text \<open>
  Claim C6, as amended. A successful refresh updates the table in place: the table
  has as many rows as before; every row stands where it stood; a row whose token is
  not the presented one is unchanged; a row whose token is the presented one has
  only \<^verbatim>\<open>token\<close> and \<^verbatim>\<open>last_used\<close> changed, to the new value and the clock (so
  customer email, customer id, client id, scopes, \<^verbatim>\<open>expires_at\<close> and \<^verbatim>\<open>created_at\<close>
  are as before); nothing else of the state changes. The new value is the encoding
  of the 32 random bytes drawn, whatever they are. When it differs from the
  presented value, the old value finds no row afterwards, so a further refresh with
  it throws \<^verbatim>\<open>Invalid refresh token\<close> and the \<^verbatim>\<open>/v1/token\<close> route answers
  \<^verbatim>\<open>invalid_grant\<close>; when it is the presented value again, the old value still
  finds the row.
\<close>

theorem refresh_rotates_in_place:
  assumes ok: "refreshAccessToken P secret tok cid now rnd s = (s', Inr resp)"
  shows "length (refresh_tokens s') = length (refresh_tokens s)
       \<and> (\<forall>i < length (refresh_tokens s).
            refresh_tokens s' ! i =
              (if rt_token (refresh_tokens s ! i) = tok
               then (refresh_tokens s ! i)\<lparr>rt_token := r_refresh_token resp,
                                            rt_last_used := Some now\<rparr>
               else refresh_tokens s ! i))
       \<and> auth_codes s' = auth_codes s
       \<and> AUTH_REQUESTS s' = AUTH_REQUESTS s
       \<and> MAGIC_LINK_TOKENS s' = MAGIC_LINK_TOKENS s
       \<and> r_refresh_token resp = generateRefreshToken P rnd
       \<and> (r_refresh_token resp = tok \<longrightarrow>
            find (\<lambda>r. rt_token r = tok) (refresh_tokens s') \<noteq> None)
       \<and> (r_refresh_token resp \<noteq> tok \<longrightarrow>
            find (\<lambda>r. rt_token r = tok) (refresh_tokens s') = None
          \<and> refreshAccessToken P secret2 tok cid2 now2 rnd2 s'
              = (s', Inl (Error None ''Invalid refresh token''))
          \<and> token_route P secret2
              \<lparr>tr_grant_type = ''refresh_token'', tr_code = c2, tr_code_verifier = v2,
               tr_client_id = cid2, tr_refresh_token = tok\<rparr> now2 rnd2 s'
              = (s', TokenError ''invalid_grant'' ''Invalid refresh token''))"
proof -
  from ok obtain row :: refresh_token_row and scopes where
    found: "find (\<lambda>r. rt_token r = tok) (refresh_tokens s) = Some row" and
    s': "s' = s\<lparr>refresh_tokens := rotate tok (generateRefreshToken P rnd) now (refresh_tokens s)\<rparr>" and
    resp: "resp = \<lparr>r_access_token = generateAccessToken P (rt_cordial_contact_id row)
                                  (rt_customer_email row) scopes secret now,
             r_refresh_token = generateRefreshToken P rnd,
             r_token_type = ''Bearer'',
             r_expires_in = 3600,
             r_scope = join_with '' '' scopes\<rparr>"
    by (rule refresh_success_cases)
  have new: "r_refresh_token resp = generateRefreshToken P rnd" using resp by simp
  have rows: "refresh_tokens s' = rotate tok (r_refresh_token resp) now (refresh_tokens s)"
    using s' new by simp
  have len: "length (refresh_tokens s') = length (refresh_tokens s)"
    using rows by (simp add: rotate_def)
  have nth: "\<forall>i < length (refresh_tokens s).
            refresh_tokens s' ! i =
              (if rt_token (refresh_tokens s ! i) = tok
               then (refresh_tokens s ! i)\<lparr>rt_token := r_refresh_token resp,
                                            rt_last_used := Some now\<rparr>
               else refresh_tokens s ! i)"
    using rows by (simp add: rotate_nth)
  have frame: "auth_codes s' = auth_codes s" "AUTH_REQUESTS s' = AUTH_REQUESTS s"
    "MAGIC_LINK_TOKENS s' = MAGIC_LINK_TOKENS s"
    using s' by simp_all
  have after: "find (\<lambda>r. rt_token r = tok) (refresh_tokens s') = None
          \<and> refreshAccessToken P secret2 tok cid2 now2 rnd2 s'
              = (s', Inl (Error None ''Invalid refresh token''))
          \<and> token_route P secret2
              \<lparr>tr_grant_type = ''refresh_token'', tr_code = c2, tr_code_verifier = v2,
               tr_client_id = cid2, tr_refresh_token = tok\<rparr> now2 rnd2 s'
              = (s', TokenError ''invalid_grant'' ''Invalid refresh token'')"
    if fresh: "r_refresh_token resp \<noteq> tok"
  proof -
    have gone: "find (\<lambda>r. rt_token r = tok) (refresh_tokens s') = None"
      using rows fresh by (simp add: find_rotated_old)
    then have again: "refreshAccessToken P secret2 tok cid2 now2 rnd2 s'
             = (s', Inl (Error None ''Invalid refresh token''))"
      by (simp add: refreshAccessToken_def)
    then have "token_route P secret2
             \<lparr>tr_grant_type = ''refresh_token'', tr_code = c2, tr_code_verifier = v2,
              tr_client_id = cid2, tr_refresh_token = tok\<rparr> now2 rnd2 s'
             = (s', TokenError ''invalid_grant'' ''Invalid refresh token'')"
      by (simp add: token_route_def)
    with gone again show ?thesis by simp
  qed
  have still: "find (\<lambda>r. rt_token r = tok) (refresh_tokens s') \<noteq> None"
    if same: "r_refresh_token resp = tok"
    using rows same find_rotated_same [OF found, of now] by simp
  show ?thesis using len nth frame new still after by blast
qed

theorem refresh_rotates_in_place_witness:
  "refreshAccessToken demo_platform demo_secret demo_refresh_value ''client-1'' 2000000 rnd1
     demo_exchanged = (demo_refreshed, Inr demo_refresh_response)
   \<and> r_refresh_token demo_refresh_response \<noteq> demo_refresh_value
   \<and> refresh_tokens demo_exchanged = [demo_refresh_row]
   \<and> refresh_tokens demo_refreshed =
       [demo_refresh_row\<lparr>rt_token := demo_refresh_value1, rt_last_used := Some 2000000\<rparr>]
   \<and> find (\<lambda>r. rt_token r = demo_refresh_value) (refresh_tokens demo_refreshed) = None
   \<and> refreshAccessToken demo_platform demo_secret demo_refresh_value ''client-1'' 2000001 rnd0
       demo_refreshed = (demo_refreshed, Inl (Error None ''Invalid refresh token''))
   \<and> token_route demo_platform demo_secret
        \<lparr>tr_grant_type = ''refresh_token'', tr_code = [], tr_code_verifier = [],
         tr_client_id = ''client-1'', tr_refresh_token = demo_refresh_value\<rparr>
        2000001 rnd0 demo_refreshed
       = (demo_refreshed, TokenError ''invalid_grant'' ''Invalid refresh token'')"
proof -
  have fresh: "r_refresh_token demo_refresh_response \<noteq> demo_refresh_value"
    using demo_refresh_values_differ by (simp add: demo_refresh_response_def)
  note rotated = refresh_rotates_in_place [OF demo_refresh_run,
        of demo_secret "''client-1''" 2000001 rnd0 "[]" "[]"]
  have before: "refresh_tokens demo_exchanged = [demo_refresh_row]"
    by (simp add: demo_exchanged_def)
  have after: "refresh_tokens demo_refreshed =
       [demo_refresh_row\<lparr>rt_token := demo_refresh_value1, rt_last_used := Some 2000000\<rparr>]"
    by (simp add: demo_refreshed_def)
  from rotated fresh have gone:
    "find (\<lambda>r. rt_token r = demo_refresh_value) (refresh_tokens demo_refreshed) = None"
    by simp
  from rotated fresh have again:
    "refreshAccessToken demo_platform demo_secret demo_refresh_value ''client-1'' 2000001 rnd0
       demo_refreshed = (demo_refreshed, Inl (Error None ''Invalid refresh token''))"
    by simp
  from rotated fresh have route:
    "token_route demo_platform demo_secret
        \<lparr>tr_grant_type = ''refresh_token'', tr_code = [], tr_code_verifier = [],
         tr_client_id = ''client-1'', tr_refresh_token = demo_refresh_value\<rparr>
        2000001 rnd0 demo_refreshed
       = (demo_refreshed, TokenError ''invalid_grant'' ''Invalid refresh token'')"
    by simp
  show ?thesis
    using demo_refresh_run fresh before after gone again route by (intro conjI)
qed

text \<open>
  Counterexample to claim C6 as written: the new token value is 32 random bytes and
  is never compared with the presented one. When the bytes drawn are those of the
  presented value, the refresh succeeds, the response carries the presented value
  again, the row still answers to it, and a further refresh with it succeeds.
\<close>

theorem refresh_collision_counterexample:
  "refreshAccessToken demo_platform demo_secret demo_refresh_value ''client-1'' 2000000 rnd0
     demo_exchanged = (demo_collided, Inr demo_collided_response)
   \<and> r_refresh_token demo_collided_response = demo_refresh_value
   \<and> find (\<lambda>r. rt_token r = demo_refresh_value) (refresh_tokens demo_collided)
       = Some (demo_refresh_row\<lparr>rt_last_used := Some 2000000\<rparr>)
   \<and> refreshAccessToken demo_platform demo_secret demo_refresh_value ''client-1'' 2000000 rnd1
       demo_collided = (demo_refreshed, Inr demo_refresh_response)"
proof (intro conjI)
  show "refreshAccessToken demo_platform demo_secret demo_refresh_value ''client-1'' 2000000 rnd0
     demo_exchanged = (demo_collided, Inr demo_collided_response)"
    by (rule demo_collision_run)
  show "r_refresh_token demo_collided_response = demo_refresh_value"
    by (simp add: demo_collided_response_def)
  show "find (\<lambda>r. rt_token r = demo_refresh_value) (refresh_tokens demo_collided)
       = Some (demo_refresh_row\<lparr>rt_last_used := Some 2000000\<rparr>)"
    by (simp add: demo_collided_def demo_refresh_row_def)
  show "refreshAccessToken demo_platform demo_secret demo_refresh_value ''client-1'' 2000000 rnd1
       demo_collided = (demo_refreshed, Inr demo_refresh_response)"
    by (simp add: Let_def refreshAccessToken_def demo_access_refreshed demo_refresh_value_rnd1
          rotate_def demo_confirmed_def demo_collided_def demo_refreshed_def
          demo_refresh_response_def demo_refresh_row_def)
qed


section \<open>A minted token verifies\<close>

text \<open>
  On a platform whose base64 alphabet has no dot and whose decoding and parsing
  invert the encoding of the claim set, the access token that \<^verbatim>\<open>generateAccessToken\<close>
  mints verifies under the same secret, with exactly the minted claims, at every
  clock reading up to its \<^verbatim>\<open>exp\<close>.
\<close>

lemma split_on_no_sep: "c \<notin> set a \<Longrightarrow> split_on c a = [a]"
  by (induction a) auto

lemma split_on_first: "c \<notin> set a \<Longrightarrow> split_on c (a @ c # rest) = a # split_on c rest"
  by (induction a) (auto split: list.splits)

lemma split_on_three:
  assumes "c \<notin> set a" "c \<notin> set b" "c \<notin> set d"
  shows "split_on c (a @ [c] @ b @ [c] @ d) = [a, b, d]"
  using assms by (simp add: split_on_first split_on_no_sep)

lemma base64urlEncode_no_dot:
  assumes "CHR ''.'' \<notin> set (btoa P x)"
  shows "CHR ''.'' \<notin> set (base64urlEncode P x)"
  using assms by (auto simp: base64urlEncode_def)

lemma minted_token_verifies:
  assumes alphabet: "\<And>x. CHR ''.'' \<notin> set (btoa P x)"
      and decode: "base64urlDecode P (base64urlEncode P (json_stringify P payload))
                     = Inr (json_stringify P payload)"
      and parse: "json_parse P (json_stringify P payload) = Some payload"
      and payload: "payload = access_token_payload contactId email scopes now"
      and in_time: "now' div 1000 \<le> now div 1000 + 3600"
  shows "verifyJWT P (generateAccessToken P contactId email scopes secret now) secret now'
           = Inr payload"
proof -
  let ?h = "base64urlEncode P (json_stringify P jwt_header)"
  let ?p = "base64urlEncode P (json_stringify P payload)"
  let ?sg = "sign P (?h @ ''.'' @ ?p) secret"
  have token: "generateAccessToken P contactId email scopes secret now = ?h @ ''.'' @ ?p @ ''.'' @ ?sg"
    by (simp add: generateAccessToken_def createJWT_def Let_def payload)
  have "split_on CHR ''.'' (?h @ ''.'' @ ?p @ ''.'' @ ?sg) = [?h, ?p, ?sg]"
    using split_on_three [of "CHR ''.''" ?h ?p ?sg] alphabet
    by (simp add: base64urlEncode_no_dot sign_def)
  then have parts: "split_on CHR ''.'' (generateAccessToken P contactId email scopes secret now)
                      = [?h, ?p, ?sg]"
    using token by simp
  have exp: "get_prop payload ''exp'' = Some (JNum (now div 1000 + 3600))"
    by (simp add: payload access_token_payload_def)
  have "payload \<noteq> JNull" by (simp add: payload access_token_payload_def)
  then show ?thesis
    using decode parse exp in_time
    by (simp add: verifyJWT_parts [OF parts] js_less_than_def js_number_def)
qed


section \<open>Scope checks in the dispatcher\<close>

lemma dispatched_handler_logs:
  assumes "map_of method_scopes meth = Some required"
      and "checkScope scopes required = Inr ()"
  shows "length (console (fst (routeMethod P C meth params cust scopes now random_text st)))
         = Suc (length (console st))"
  using assms
  by (auto simp: routeMethod_def guarded_def method_scopes_def getOrders_def getLoyalty_def
        getOffers_def getPreferences_def createIntent_def getIntentsMethod_def updateIntent_def
        fulfillIntent_def log_line_def storeIntent_def storeUpdate_def push_activity_def Let_def
      split: if_splits)

text \<open>
  Claim C4. Let the token verify, let its payload carry an array of scopes, let the
  request's method be one of the eight dispatched methods, and let the scope that
  method requires be missing from the array. Then the dispatcher returns, under the
  request's id, the error with code -32001 and the message
  \<^verbatim>\<open>Forbidden: missing scope '<scope>'\<close>, and the state is exactly what it was: no
  activity is stored, and the console has none of the lines that every handler
  writes first (\<open>dispatched_handler_logs\<close>), so no handler has run.
\<close>

theorem missing_scope_is_refused:
  assumes verified: "verifyAccessToken P accessToken secret now = Inr tokenPayload"
      and scopes: "get_prop tokenPayload ''scopes'' = Some (JArr xs)"
      and routed: "map_of method_scopes (rq_method request) = Some required"
      and missing: "JStr required \<notin> set xs"
  shows "handleRPCRequest P C secret request accessToken now random_text st =
           (st, RpcError (rq_id request) (-32001)
                  (''Forbidden: missing scope '' @ apostrophe @ required @ apostrophe))"
  using routed missing
  by (auto simp: handleRPCRequest_def verified scopes routeMethod_def guarded_def checkScope_def
        forbidden_def createError_def getErrorCode_def method_scopes_def
      split: if_splits)

theorem missing_scope_is_refused_witness:
  "verifyAccessToken demo_platform demo_token demo_secret 2000000 = Inr demo_claims_json
   \<and> get_prop demo_claims_json ''scopes'' = Some (JArr [JStr ''orders''])
   \<and> (\<forall>C. handleRPCRequest demo_platform C demo_secret demo_request_loyalty
               demo_token 2000000 [] demo_rpc_state
             = (demo_rpc_state,
                RpcError (JNum 1) (-32001)
                  (''Forbidden: missing scope '' @ apostrophe @ ''loyalty'' @ apostrophe)))"
proof -
  have scopes: "get_prop demo_claims_json ''scopes'' = Some (JArr [JStr ''orders''])"
    by (simp add: demo_claims_json_def)
  have routed: "map_of method_scopes (rq_method demo_request_loyalty) = Some ''loyalty''"
    by (simp add: method_scopes_def demo_request_loyalty_def)
  have missing: "JStr ''loyalty'' \<notin> set [JStr ''orders'']"
    by simp
  have "handleRPCRequest demo_platform C demo_secret demo_request_loyalty
        demo_token 2000000 [] demo_rpc_state
       = (demo_rpc_state,
          RpcError (rq_id demo_request_loyalty) (-32001)
            (''Forbidden: missing scope '' @ apostrophe @ ''loyalty'' @ apostrophe))" for C
    by (rule missing_scope_is_refused [OF demo_token_verified scopes routed missing])
  then show ?thesis
    using demo_token_verified scopes by (simp add: demo_request_loyalty_def)
qed


section \<open>The verifier and the header\<close>

text \<open>
  Claim C7, as amended. \<^verbatim>\<open>verifyJWT\<close> never decodes the header, so the algorithm a
  token declares plays no part. It accepts a token, returning the claims, exactly
  when the token has three parts, the third part is the HMAC-SHA-256 signature of
  the first two under the secret, and the second part decodes to a JSON text of a
  value other than \<^verbatim>\<open>null\<close> with no \<^verbatim>\<open>exp\<close> or with an \<^verbatim>\<open>exp\<close> that has not passed;
  the claims are that value. And every token of three parts whose third part is not
  that signature is rejected with \<^verbatim>\<open>Invalid JWT signature\<close>, whatever its header and
  payload are: in particular a token that declares \<^verbatim>\<open>alg: none\<close> is treated like any
  other, accepted when signed under the secret and rejected when not.
\<close>

theorem verify_decided_by_signature_and_payload:
  "(verifyJWT P token secret now = Inr claims) =
     (\<exists>h p sg payload_text.
         split_on CHR ''.'' token = [h, p, sg]
       \<and> sg = sign P (h @ ''.'' @ p) secret
       \<and> base64urlDecode P p = Inr payload_text
       \<and> json_parse P payload_text = Some claims
       \<and> claims \<noteq> JNull
       \<and> (case get_prop claims ''exp'' of
            None \<Rightarrow> True
          | Some e \<Rightarrow> \<not> (truthy e \<and> js_less_than P e (now div 1000))))
   \<and> (\<forall>h p sg. split_on CHR ''.'' token = [h, p, sg] \<and> sg \<noteq> sign P (h @ ''.'' @ p) secret
          \<longrightarrow> verifyJWT P token secret now = Inl (Error None ''Invalid JWT signature''))"
proof (intro conjI allI impI)
  show "(verifyJWT P token secret now = Inr claims) =
     (\<exists>h p sg payload_text.
         split_on CHR ''.'' token = [h, p, sg]
       \<and> sg = sign P (h @ ''.'' @ p) secret
       \<and> base64urlDecode P p = Inr payload_text
       \<and> json_parse P payload_text = Some claims
       \<and> claims \<noteq> JNull
       \<and> (case get_prop claims ''exp'' of
            None \<Rightarrow> True
          | Some e \<Rightarrow> \<not> (truthy e \<and> js_less_than P e (now div 1000))))"
  proof
    assume ok: "verifyJWT P token secret now = Inr claims"
    then obtain h p sg where parts: "split_on CHR ''.'' token = [h, p, sg]"
      by (auto simp: verifyJWT_def split: list.splits)
    from ok have "sg = sign P (h @ ''.'' @ p) secret
       \<and> (\<exists>payload_text. base64urlDecode P p = Inr payload_text
            \<and> json_parse P payload_text = Some claims)
       \<and> claims \<noteq> JNull
       \<and> (case get_prop claims ''exp'' of
            None \<Rightarrow> True
          | Some e \<Rightarrow> \<not> (truthy e \<and> js_less_than P e (now div 1000)))"
      unfolding verifyJWT_parts[OF parts]
      by (auto split: if_splits sum.splits option.splits)
    with parts show "\<exists>h p sg payload_text.
         split_on CHR ''.'' token = [h, p, sg]
       \<and> sg = sign P (h @ ''.'' @ p) secret
       \<and> base64urlDecode P p = Inr payload_text
       \<and> json_parse P payload_text = Some claims
       \<and> claims \<noteq> JNull
       \<and> (case get_prop claims ''exp'' of
            None \<Rightarrow> True
          | Some e \<Rightarrow> \<not> (truthy e \<and> js_less_than P e (now div 1000)))"
      by blast
  next
    assume "\<exists>h p sg payload_text.
         split_on CHR ''.'' token = [h, p, sg]
       \<and> sg = sign P (h @ ''.'' @ p) secret
       \<and> base64urlDecode P p = Inr payload_text
       \<and> json_parse P payload_text = Some claims
       \<and> claims \<noteq> JNull
       \<and> (case get_prop claims ''exp'' of
            None \<Rightarrow> True
          | Some e \<Rightarrow> \<not> (truthy e \<and> js_less_than P e (now div 1000)))"
    then obtain h p sg payload_text where
      parts: "split_on CHR ''.'' token = [h, p, sg]" and
      rest: "sg = sign P (h @ ''.'' @ p) secret" "base64urlDecode P p = Inr payload_text"
            "json_parse P payload_text = Some claims" "claims \<noteq> JNull"
            "case get_prop claims ''exp'' of
               None \<Rightarrow> True
             | Some e \<Rightarrow> \<not> (truthy e \<and> js_less_than P e (now div 1000))"
      by blast
    from rest show "verifyJWT P token secret now = Inr claims"
      unfolding verifyJWT_parts[OF parts] by (auto split: option.splits)
  qed
next
  fix h p sg
  assume "split_on CHR ''.'' token = [h, p, sg] \<and> sg \<noteq> sign P (h @ ''.'' @ p) secret"
  then show "verifyJWT P token secret now = Inl (Error None ''Invalid JWT signature'')"
    by (simp add: verifyJWT_def)
qed

theorem verify_decided_by_signature_and_payload_witness:
  "verifyJWT demo_platform demo_token_none demo_secret 2000000 = Inr demo_claims_json
   \<and> verifyJWT demo_platform demo_token_none_forged demo_secret 2000000
       = Inl (Error None ''Invalid JWT signature'')
   \<and> verifyJWT demo_platform demo_token_none_forged demo_secret 2000000
       \<noteq> Inr demo_claims_json"
proof (intro conjI)
  have not_null: "demo_claims_json \<noteq> JNull"
    by (simp add: demo_claims_json_def)
  have live: "case get_prop demo_claims_json ''exp'' of
                None \<Rightarrow> True
              | Some e \<Rightarrow> \<not> (truthy e \<and> js_less_than demo_platform e (2000000 div 1000))"
    by (simp add: demo_claims_json_def js_less_than_def js_number_def)
  have "\<exists>h p sg payload_text.
         split_on CHR ''.'' demo_token_none = [h, p, sg]
       \<and> sg = sign demo_platform (h @ ''.'' @ p) demo_secret
       \<and> base64urlDecode demo_platform p = Inr payload_text
       \<and> json_parse demo_platform payload_text = Some demo_claims_json
       \<and> demo_claims_json \<noteq> JNull
       \<and> (case get_prop demo_claims_json ''exp'' of
            None \<Rightarrow> True
          | Some e \<Rightarrow> \<not> (truthy e \<and> js_less_than demo_platform e (2000000 div 1000)))"
    using demo_token_none_parts demo_token_none_signed_ok demo_claims_decoded not_null live
    by blast
  then show "verifyJWT demo_platform demo_token_none demo_secret 2000000 = Inr demo_claims_json"
    using verify_decided_by_signature_and_payload
            [of demo_platform demo_token_none demo_secret 2000000 demo_claims_json]
    by blast
next
  show forged: "verifyJWT demo_platform demo_token_none_forged demo_secret 2000000
       = Inl (Error None ''Invalid JWT signature'')"
    using verify_decided_by_signature_and_payload
            [of demo_platform demo_token_none_forged demo_secret 2000000 demo_claims_json]
          demo_token_none_forged_parts demo_forged_none_not_signed
    by blast
  then show "verifyJWT demo_platform demo_token_none_forged demo_secret 2000000
       \<noteq> Inr demo_claims_json"
    by simp
qed

text \<open>
  Counterexample to claim C7 as written: a token whose header is
  \<^verbatim>\<open>{"alg":"none","typ":"JWT"}\<close>, signed with HMAC-SHA-256 under the secret, verifies.
\<close>

theorem other_algorithm_accepted_counterexample:
  "declared_alg demo_platform demo_token_none = Some (JStr ''none'')
   \<and> verifyJWT demo_platform demo_token_none demo_secret 2000000 = Inr demo_claims_json"
  by code_simp


section \<open>Expired tokens\<close>

text \<open>
  Claim C8, as amended. A token of three parts whose payload decodes and carries a
  non-zero numeric \<^verbatim>\<open>exp\<close> earlier than the clock in seconds always fails
  \<^verbatim>\<open>verifyJWT\<close>: with \<^verbatim>\<open>JWT expired\<close> when its signature verifies, and with
  \<^verbatim>\<open>Invalid JWT signature\<close> when it does not, since the signature is checked before
  the payload is read.
\<close>

theorem expired_token_fails:
  assumes parts: "split_on CHR ''.'' token = [h, p, sg]"
      and decoded: "base64urlDecode P p = Inr text" "json_parse P text = Some payload"
      and exp: "get_prop payload ''exp'' = Some (JNum e)" "e \<noteq> 0" "e < now div 1000"
  shows "verifyJWT P token secret now =
           (if sg = sign P (h @ ''.'' @ p) secret
            then Inl (Error None ''JWT expired'')
            else Inl (Error None ''Invalid JWT signature''))"
proof -
  have "payload \<noteq> JNull" using exp(1) by auto
  then show ?thesis
    using decoded exp
    by (simp add: verifyJWT_parts[OF parts] js_less_than_def js_number_def)
qed

theorem expired_token_fails_witness:
  "verifyJWT demo_platform demo_token demo_secret 5000000 = Inl (Error None ''JWT expired'')
   \<and> verifyJWT demo_platform demo_token_forged demo_secret 5000000
       = Inl (Error None ''Invalid JWT signature'')"
proof -
  have exp: "get_prop demo_claims_json ''exp'' = Some (JNum 4600)" "(4600::int) \<noteq> 0"
    "(4600::int) < 5000000 div 1000"
    by (simp_all add: demo_claims_json_def)
  show ?thesis
    using expired_token_fails [OF demo_token_parts demo_claims_decoded exp, of demo_secret]
      expired_token_fails [OF demo_token_forged_parts demo_claims_decoded exp, of demo_secret]
      demo_token_signed_ok demo_forged_not_signed
    by simp
qed

text \<open>
  Counterexample to claim C8 as written: the payload's \<^verbatim>\<open>exp\<close> is 4600 and the clock
  reads 5000 seconds, but the signature is not the token's HMAC. The error is the
  signature error, not the expiry error.
\<close>

theorem expired_forged_token_counterexample:
  "split_on CHR ''.'' demo_token_forged = [demo_header_part, demo_claims_part, demo_forged_signature]
   \<and> base64urlDecode demo_platform demo_claims_part = Inr demo_claims_text
   \<and> json_parse demo_platform demo_claims_text = Some demo_claims_json
   \<and> get_prop demo_claims_json ''exp'' = Some (JNum 4600)
   \<and> (4600::int) < 5000000 div 1000
   \<and> verifyJWT demo_platform demo_token_forged demo_secret 5000000
       = Inl (Error None ''Invalid JWT signature'')
   \<and> verifyJWT demo_platform demo_token_forged demo_secret 5000000
       \<noteq> Inl (Error None ''JWT expired'')"
  by code_simp


section \<open>The intent fold\<close>

lemma group_activities_distinct:
  "distinct (map fst m) \<Longrightarrow> distinct (map fst (group_activities m i acts))"
proof (induction acts arbitrary: m i)
  case Nil
  then show ?case by simp
next
  case (Cons a rest)
  then show ?case
    by (auto simp: AList.distinct_update AList.distinct_map_entry split: option.splits)
qed

lemma update_set: "e \<in> set (AList.update k v m) \<Longrightarrow> e = (k, v) \<or> e \<in> set m"
  by (induction m) (auto split: if_splits)

lemma map_entry_set:
  "e \<in> set (AList.map_entry k f m) \<Longrightarrow> e \<in> set m \<or> (\<exists>v. (k, v) \<in> set m \<and> e = (k, f v))"
  by (induction m) (auto split: if_splits)

lemma group_activities_keys:
  assumes "\<forall>e \<in> set m. \<exists>j. fst e = intent_key_of j (fst (snd e))"
  shows "\<forall>e \<in> set (group_activities m i acts). \<exists>j. fst e = intent_key_of j (fst (snd e))"
  using assms
proof (induction acts arbitrary: m i)
  case Nil
  then show ?case by simp
next
  case (Cons a rest)
  show ?case
  proof (cases "intent_id_of a")
    case None
    then show ?thesis using Cons by simp
  next
    case (Some k)
    let ?key = "intent_key_of i k"
    have upd: "\<forall>e \<in> set (AList.update ?key (k, a, []) m). \<exists>j. fst e = intent_key_of j (fst (snd e))"
      using Cons.prems by (auto dest!: update_set)
    have ent: "\<forall>e \<in> set (AList.map_entry ?key (\<lambda>(k, created, updates). (k, created, updates @ [a])) m).
                 \<exists>j. fst e = intent_key_of j (fst (snd e))"
    proof
      fix e
      assume "e \<in> set (AList.map_entry ?key (\<lambda>(k, created, updates). (k, created, updates @ [a])) m)"
      then consider "e \<in> set m"
        | v where "(?key, v) \<in> set m" "e = (?key, (\<lambda>(k, created, updates). (k, created, updates @ [a])) v)"
        by (auto dest!: map_entry_set)
      then show "\<exists>j. fst e = intent_key_of j (fst (snd e))"
      proof cases
        case 1
        then show ?thesis using Cons.prems by blast
      next
        case 2
        then obtain j where "?key = intent_key_of j (fst v)"
          using Cons.prems by fastforce
        then show ?thesis using 2 by (cases v) auto
      qed
    qed
    show ?thesis
      using Some Cons.IH [OF upd] Cons.IH [OF ent] Cons.IH [OF Cons.prems]
      by simp
  qed
qed

lemma group_activities_entry:
  assumes "is_primitive X" "truthy X"
      and "map_of m (ByValue X) = map_option (\<lambda>(c, us). (X, c, us)) e"
  shows "map_of (group_activities m i acts) (ByValue X)
         = map_option (\<lambda>(c, us). (X, c, us))
             (entry_after e (filter (\<lambda>a. intent_id_of a = Some X) acts))"
  using assms(3)
proof (induction acts arbitrary: m i e)
  case Nil
  then show ?case by simp
next
  case (Cons a rest)
  show ?case
  proof (cases "intent_id_of a")
    case None
    then show ?thesis using Cons by simp
  next
    case (Some k)
    show ?thesis
    proof (cases "k = X")
      case True
      have key: "intent_key_of i X = ByValue X"
        using assms(1) by (simp add: intent_key_of_def)
      show ?thesis
      proof (cases "act_action a = ''scp_intent_created''")
        case created: True
        have "map_of (AList.update (ByValue X) (X, a, []) m) (ByValue X)
              = map_option (\<lambda>(c, us). (X, c, us)) (Some (a, []))"
          by (simp add: AList.update_conv')
        from Cons.IH [OF this] show ?thesis
          using Some True created key assms(2) by simp
      next
        case other: False
        show ?thesis
        proof (cases e)
          case None
          then have "ByValue X \<notin> fst ` set m"
            using Cons.prems by (simp add: map_of_eq_None_iff)
          then show ?thesis
            using Some True other key assms(2) None Cons.IH [OF Cons.prems] by simp
        next
          case (Some cu)
          obtain c us where cu: "cu = (c, us)" by (cases cu)
          have present: "map_of m (ByValue X) = Some (X, c, us)"
            using Cons.prems Some cu by simp
          then have dom: "ByValue X \<in> fst ` set m"
            by (metis map_of_eq_None_iff option.distinct(1))
          have "map_of (AList.map_entry (ByValue X)
                          (\<lambda>(k, created, updates). (k, created, updates @ [a])) m) (ByValue X)
                = map_option (\<lambda>(c, us). (X, c, us)) (Some (c, us @ [a]))"
            using present by (simp add: AList.map_of_map_entry)
          from Cons.IH [OF this] show ?thesis
            using \<open>intent_id_of a = Some k\<close> True other key assms(2) dom Some cu by simp
        qed
      qed
    next
      case False
      have key: "intent_key_of i k \<noteq> ByValue X"
        using False by (simp add: intent_key_of_def)
      have one: "map_of (AList.update (intent_key_of i k) v m) (ByValue X)
                   = map_option (\<lambda>(c, us). (X, c, us)) e" for v
        using key Cons.prems by (simp add: AList.update_conv')
      have two: "map_of (AList.map_entry (intent_key_of i k) f m) (ByValue X)
                   = map_option (\<lambda>(c, us). (X, c, us)) e" for f
        using key Cons.prems by (simp add: AList.map_of_map_entry)
      show ?thesis
        using Some False Cons.IH [OF one] Cons.IH [OF two] Cons.IH [OF Cons.prems]
        by simp
    qed
  qed
qed

lemma filter_key_distinct:
  "distinct (map fst ms) \<Longrightarrow> (k, v) \<in> set ms \<Longrightarrow> filter (\<lambda>e. fst e = k) ms = [(k, v)]"
proof (induction ms)
  case Nil
  then show ?case by simp
next
  case (Cons p ps)
  show ?case
  proof (cases "fst p = k")
    case True
    with Cons.prems have "p = (k, v)"
      by (cases p) (auto simp: image_iff)
    moreover have "filter (\<lambda>e. fst e = k) ps = []"
      using Cons.prems True by (auto simp: filter_empty_conv image_iff)
    ultimately show ?thesis by simp
  next
    case False
    then show ?thesis using Cons by auto
  qed
qed

lemma to_intent_id: "i_intent_id (to_intent cust e) = fst (snd e)"
  by (cases e) (simp add: to_intent_def Let_def)

lemma entry_after_append:
  "entry_after e (xs @ ys) = entry_after (entry_after e xs) ys"
  by (induction xs arbitrary: e) (auto split: option.splits)

lemma entry_after_updates:
  "\<forall>a \<in> set ys. act_action a \<noteq> ''scp_intent_created''
   \<Longrightarrow> entry_after (Some (c, us)) ys = Some (c, us @ ys)"
  by (induction ys arbitrary: us) auto

lemma latest_status_append:
  "latest_status acc (xs @ ys) = latest_status (latest_status acc xs) ys"
  by (induction xs arbitrary: acc) (auto split: option.splits)

lemma latest_status_none:
  "\<forall>a \<in> set ys. \<not> carries_status a \<Longrightarrow> latest_status acc ys = acc"
  by (induction ys) (auto simp: carries_status_def split: option.splits)

text \<open>
  Claim C9, as amended. Let \<open>X\<close> be an intent id that is a primitive value (a string,
  a number, a boolean), and take an activity log in which the activities of \<open>X\<close>
  are, in log order: any activities, then a created activity \<open>c\<close>, then activities
  other than created ones, among them an activity \<open>u\<close> that carries a status and
  after which no activity of \<open>X\<close> carries one. Activities of other intents, and
  activities without an intent id, may stand anywhere in between. Then the fold
  yields exactly one intent for \<open>X\<close>; its status is the status of \<open>u\<close> and its
  \<^verbatim>\<open>updated_at\<close> is the timestamp of \<open>u\<close>, the last activity that carried a status,
  not that of the last activity; its \<^verbatim>\<open>created_at\<close> is the timestamp of \<open>c\<close>, and its
  milestones are \<open>c\<close> and the activities after it, in log order. The log of the claim
  is the instance with nothing before \<open>c\<close>, \<open>u\<close> the activity with status
  \<^verbatim>\<open>fulfilled\<close> right after \<open>c\<close>, and one activity without a status after \<open>u\<close>.
\<close>

theorem intent_fold_last_status:
  assumes prim: "is_primitive X" and X: "truthy X"
      and log: "filter (\<lambda>a. intent_id_of a = Some X) acts = earlier @ [c] @ before @ [u] @ after"
      and c: "act_action c = ''scp_intent_created''"
      and updates: "\<forall>a \<in> set (before @ [u] @ after). act_action a \<noteq> ''scp_intent_created''"
      and u: "get_prop (act_data u) ''status'' = Some status" "truthy status"
      and after: "\<forall>a \<in> set after. \<not> carries_status a"
  shows "\<exists>I. filter (\<lambda>i. i_intent_id i = X) (transformIntentsToSCP cust acts) = [I]
           \<and> i_status I = status
           \<and> i_updated_at I = act_timestamp u
           \<and> i_created_at I = act_timestamp c
           \<and> map ms_timestamp (i_milestones I)
               = map act_timestamp ([c] @ before @ [u] @ after)"
proof -
  let ?ms = "group_activities [] 0 acts"
  let ?us = "before @ [u] @ after"
  have "entry_after None (earlier @ [c] @ ?us) = entry_after (Some (c, [])) ?us"
    using c by (simp add: entry_after_append)
  also have "\<dots> = Some (c, ?us)"
    using entry_after_updates [OF updates, of c "[]"] by simp
  finally have entry: "entry_after None (earlier @ [c] @ ?us) = Some (c, ?us)" .
  have "map_of ?ms (ByValue X)
          = map_option (\<lambda>(c, us). (X, c, us))
              (entry_after None (filter (\<lambda>a. intent_id_of a = Some X) acts))"
    by (rule group_activities_entry [OF prim X]) simp
  then have "map_of ?ms (ByValue X) = Some (X, c, ?us)"
    using log entry by simp
  then have mem: "(ByValue X, X, c, ?us) \<in> set ?ms"
    by (rule map_of_SomeD)
  have "distinct (map fst ?ms)"
    by (rule group_activities_distinct) simp
  then have one: "filter (\<lambda>e. fst e = ByValue X) ?ms = [(ByValue X, X, c, ?us)]"
    using mem by (rule filter_key_distinct)
  have keys: "\<forall>e \<in> set ?ms. \<exists>j. fst e = intent_key_of j (fst (snd e))"
    by (rule group_activities_keys) simp
  have same: "filter (\<lambda>e. fst (snd e) = X) ?ms = filter (\<lambda>e. fst e = ByValue X) ?ms"
  proof (rule filter_cong [OF refl])
    fix e
    assume "e \<in> set ?ms"
    then obtain j where "fst e = intent_key_of j (fst (snd e))"
      using keys by blast
    then show "(fst (snd e) = X) = (fst e = ByValue X)"
      using prim by (auto simp: intent_key_of_def split: if_splits)
  qed
  let ?I = "to_intent cust (ByValue X, X, c, ?us)"
  have "filter (\<lambda>i. i_intent_id i = X) (transformIntentsToSCP cust acts)
        = map (to_intent cust) (filter (\<lambda>e. fst (snd e) = X) ?ms)"
    by (simp add: transformIntentsToSCP_def filter_map comp_def to_intent_id)
  then have result: "filter (\<lambda>i. i_intent_id i = X) (transformIntentsToSCP cust acts) = [?I]"
    using one same by simp
  have "latest_status (JStr ''created'', act_timestamp c) ?us
        = latest_status (latest_status (latest_status (JStr ''created'', act_timestamp c) before) [u]) after"
    by (simp only: latest_status_append)
  also have "\<dots> = latest_status (latest_status (JStr ''created'', act_timestamp c) before) [u]"
    by (rule latest_status_none [OF after])
  also have "\<dots> = (status, act_timestamp u)"
    using u by simp
  finally have latest: "latest_status (JStr ''created'', act_timestamp c) ?us
                          = (status, act_timestamp u)" .
  have "i_status ?I = status" "i_updated_at ?I = act_timestamp u"
    using latest by (simp_all add: to_intent_def Let_def)
  moreover have "i_created_at ?I = act_timestamp c"
    by (simp add: to_intent_def Let_def)
  moreover have "map ms_timestamp (i_milestones ?I) = map act_timestamp ([c] @ ?us)"
    by (simp add: to_intent_def Let_def created_milestone_def update_milestone_def comp_def)
  ultimately show ?thesis using result by (intro exI[of _ ?I]) simp
qed

theorem intent_fold_last_status_witness:
  "\<exists>I. filter (\<lambda>i. i_intent_id i = JStr ''intent_1'')
          (transformIntentsToSCP (Some (JStr ''cust_b1p082''))
             [demo_created, demo_fulfilled, demo_noted]) = [I]
       \<and> i_status I = JStr ''fulfilled''
       \<and> i_updated_at I = ''2025-01-02T00:00:00.000Z''
       \<and> i_created_at I = ''2025-01-01T00:00:00.000Z''
       \<and> map ms_timestamp (i_milestones I)
           = [''2025-01-01T00:00:00.000Z'', ''2025-01-02T00:00:00.000Z'',
              ''2025-01-03T00:00:00.000Z'']"
proof -
  have prim: "is_primitive (JStr ''intent_1'')" and X: "truthy (JStr ''intent_1'')"
    by simp_all
  have log: "filter (\<lambda>a. intent_id_of a = Some (JStr ''intent_1''))
               [demo_created, demo_fulfilled, demo_noted]
             = [] @ [demo_created] @ [] @ [demo_fulfilled] @ [demo_noted]"
    by (simp add: intent_id_of_def demo_created_def demo_fulfilled_def demo_noted_def)
  have c: "act_action demo_created = ''scp_intent_created''"
    by (simp add: demo_created_def)
  have updates: "\<forall>a \<in> set ([] @ [demo_fulfilled] @ [demo_noted]).
                   act_action a \<noteq> ''scp_intent_created''"
    by (simp add: demo_fulfilled_def demo_noted_def)
  have u: "get_prop (act_data demo_fulfilled) ''status'' = Some (JStr ''fulfilled'')"
          "truthy (JStr ''fulfilled'')"
    by (simp_all add: demo_fulfilled_def)
  have after: "\<forall>a \<in> set [demo_noted]. \<not> carries_status a"
    by (simp add: carries_status_def demo_noted_def)
  show ?thesis
    using intent_fold_last_status [OF prim X log c updates u after,
            of "Some (JStr ''cust_b1p082'')"]
    by (simp add: demo_created_def demo_fulfilled_def demo_noted_def)
qed

text \<open>
  Counterexample to claim C9 as written: the three activities of the claim under
  the intent id \<^verbatim>\<open>["x"]\<close>, an array, as three requests leave them in the log. The
  \<^verbatim>\<open>Map\<close> of the fold compares arrays by identity, so neither update finds the entry
  of the created activity: the one intent the fold yields has status \<^verbatim>\<open>created\<close>, the
  timestamp of the created activity as \<^verbatim>\<open>updated_at\<close>, and one milestone.
\<close>

theorem array_intent_id_counterexample:
  "map intent_id_of [demo_created_array, demo_fulfilled_array, demo_noted_array]
     = [Some (JArr [JStr ''x'']), Some (JArr [JStr ''x'']), Some (JArr [JStr ''x''])]
   \<and> map act_action [demo_created_array, demo_fulfilled_array, demo_noted_array]
     = [''scp_intent_created'', ''scp_intent_updated'', ''scp_intent_updated'']
   \<and> map (\<lambda>a. get_prop (act_data a) ''status'')
         [demo_created_array, demo_fulfilled_array, demo_noted_array]
     = [Some (JStr ''created''), Some (JStr ''fulfilled''), None]
   \<and> map (\<lambda>i. (i_intent_id i, i_status i, i_updated_at i, map ms_timestamp (i_milestones i)))
         (transformIntentsToSCP (Some (JStr ''cust_b1p082''))
            [demo_created_array, demo_fulfilled_array, demo_noted_array])
     = [(JArr [JStr ''x''], JStr ''created'', ''2025-01-01T00:00:00.000Z'',
         [''2025-01-01T00:00:00.000Z''])]"
  by (simp add: transformIntentsToSCP_def to_intent_def intent_key_of_def intent_id_of_def
        created_milestone_def demo_created_array_def demo_fulfilled_array_def
        demo_noted_array_def)


section \<open>Tokens without an expiry\<close>

text \<open>
  Claim C10. A token of three parts that is correctly signed and whose payload
  decodes to a value other than \<^verbatim>\<open>null\<close> without an \<^verbatim>\<open>exp\<close> property is accepted by
  \<^verbatim>\<open>verifyJWT\<close> at every clock reading, with its payload as the claims; and at every
  clock reading the dispatcher goes on to route the request with the \<^verbatim>\<open>sub\<close> and
  \<^verbatim>\<open>scopes\<close> of that payload, its answer being what the routed method gives.
\<close>

theorem token_without_exp_never_expires:
  assumes parts: "split_on CHR ''.'' token = [h, p, sg]"
      and signed: "sg = sign P (h @ ''.'' @ p) secret"
      and decoded: "base64urlDecode P p = Inr text" "json_parse P text = Some payload"
      and not_null: "payload \<noteq> JNull"
      and no_exp: "get_prop payload ''exp'' = None"
  shows "verifyJWT P token secret now = Inr payload
       \<and> handleRPCRequest P C secret request token now random_text st =
           (case routeMethod P C (rq_method request) (or_else (rq_params request) (JObj []))
                   (get_prop payload ''sub'') (get_prop payload ''scopes'') now random_text st of
              (st', Inl e) \<Rightarrow> (st', RpcError (rq_id request) (getErrorCode e) (err_message e))
            | (st', Inr result) \<Rightarrow> (st', RpcResult (rq_id request) result))"
proof -
  have v: "verifyJWT P token secret now = Inr payload"
    using signed decoded not_null no_exp by (simp add: verifyJWT_parts[OF parts])
  then show ?thesis
    by (simp add: handleRPCRequest_def verifyAccessToken_def)
qed

theorem token_without_exp_never_expires_witness:
  "verifyJWT demo_platform demo_token_no_exp demo_secret 1000000000000000
     = Inr demo_claims_no_exp_json
   \<and> (\<forall>C. handleRPCRequest demo_platform C demo_secret demo_request_orders
              demo_token_no_exp 1000000000000000 [] demo_rpc_state
            = (log_line ''[RPC] Getting orders for customer:'' (Some (JStr ''cust_b1p082''))
                 demo_rpc_state,
               RpcError (JNum 2) (-32603)
                 ''Cannot read properties of undefined (reading 'favorite_brands')''))"
proof -
  have not_null: "demo_claims_no_exp_json \<noteq> JNull"
    by (simp add: demo_claims_no_exp_json_def)
  have no_exp: "get_prop demo_claims_no_exp_json ''exp'' = None"
    by (simp add: demo_claims_no_exp_json_def)
  have run: "verifyJWT demo_platform demo_token_no_exp demo_secret 1000000000000000
               = Inr demo_claims_no_exp_json
       \<and> handleRPCRequest demo_platform C demo_secret demo_request_orders
              demo_token_no_exp 1000000000000000 [] demo_rpc_state =
           (case routeMethod demo_platform C (rq_method demo_request_orders)
                   (or_else (rq_params demo_request_orders) (JObj []))
                   (get_prop demo_claims_no_exp_json ''sub'')
                   (get_prop demo_claims_no_exp_json ''scopes'') 1000000000000000 []
                   demo_rpc_state of
              (st', Inl e) \<Rightarrow>
                (st', RpcError (rq_id demo_request_orders) (getErrorCode e) (err_message e))
            | (st', Inr result) \<Rightarrow> (st', RpcResult (rq_id demo_request_orders) result))" for C
    by (rule token_without_exp_never_expires [OF demo_token_no_exp_parts
          demo_token_no_exp_signed_ok demo_claims_no_exp_decoded not_null no_exp])
  have code: "getErrorCode
                (Error None ''Cannot read properties of undefined (reading 'favorite_brands')'')
              = -32603"
    by code_simp
  show ?thesis
    using run
    by (simp add: routeMethod_def guarded_def checkScope_def getOrders_def or_else_def
          demo_request_orders_def demo_claims_no_exp_json_def demo_customer_by_id code)
qed


section \<open>Further properties of the token endpoint\<close>

text \<open>
  An exchange whose verifier does not match the stored challenge fails and changes
  nothing, whatever else holds of the code; the route answers \<^verbatim>\<open>invalid_grant\<close>.
\<close>

lemma pkce_mismatch_refused:
  assumes "find (\<lambda>r. ac_code r = c \<and> \<not> ac_used r) (auth_codes s) = Some row"
      and "\<not> verifyPKCE P v (ac_code_challenge row)"
  shows "\<exists>e. exchangeCodeForTokens P secret c v cid now rnd s = (s, Inl e)
           \<and> token_route P secret
                 \<lparr>tr_grant_type = ''authorization_code'', tr_code = c, tr_code_verifier = v,
                  tr_client_id = cid, tr_refresh_token = rt\<rparr> now rnd s
               = (s, TokenError ''invalid_grant'' (err_message e))"
  using assms by (auto simp: exchangeCodeForTokens_def token_route_def)

text \<open>Revocation removes every row of the token and is idempotent.\<close>

lemma revoke_removes:
  "find (\<lambda>r. rt_token r = tok) (refresh_tokens (revokeToken tok s)) = None"
  by (simp add: revokeToken_def find_None_iff)

lemma revoke_idempotent: "revokeToken tok (revokeToken tok s) = revokeToken tok s"
  by (simp add: revokeToken_def)

text \<open>An exchange never adds a row to \<^verbatim>\<open>auth_codes\<close>, and \<^verbatim>\<open>used\<close> is never cleared.\<close>

lemma used_is_monotone:
  assumes "i < length (auth_codes s)" "ac_used (auth_codes s ! i)"
  shows "ac_used (auth_codes (fst (exchangeCodeForTokens P secret c v cid now rnd s)) ! i)"
  using assms exchange_auth_codes [of P secret c v cid now rnd s]
  by (auto simp: mark_used_def)

text \<open>
  The directory throws for an address whose seventh seeded draw exceeds 0.3: the
  generator then reads \<^verbatim>\<open>customer.preferences\<close> before it is assigned.
\<close>

lemma verifyEmail_throws:
  "verifyEmail ''test@example.com''
     = Inl (Error None ''Cannot read properties of undefined (reading 'favorite_brands')'')"
proof -
  have "hashEmail ''test@example.com'' = 1405876145"
    by (simp add: hashEmail_def)
  moreover have "seed_after 7 1405876145 = 202584"
    by (simp add: seed_after_7 next_seed_def)
  ultimately have "generateCustomerFromEmail ''test@example.com''
     = Inl (Error None ''Cannot read properties of undefined (reading 'favorite_brands')'')"
    by (simp add: generateCustomerFromEmail_def)
  then show ?thesis
    by (simp add: verifyEmail_def getCustomerByEmail_def)
qed

end
